theory Spec2Isabelle
  imports Main
begin

section \<open>Values of the program\<close>

text \<open>
  The exceptions the handlers of \<^verbatim>\<open>chains.py\<close> tell apart. \<^verbatim>\<open>requests.ConnectTimeout\<close>
  is a subclass of \<^verbatim>\<open>requests.exceptions.ConnectionError\<close>; \<^verbatim>\<open>APIError\<close> carries a
  message and an HTTP status; \<open>Exception\<close> stands for an exception of any other class.
  Every constructor holds the text that \<^verbatim>\<open>str(e)\<close> returns.
\<close>

datatype py_exception =
    ConnectTimeout string
  | ConnectionError string
  | ValueError string
  | APIError string int
  | Exception string

fun str :: "py_exception \<Rightarrow> string" where
  "str (ConnectTimeout m) = m"
| "str (ConnectionError m) = m"
| "str (ValueError m) = m"
| "str (APIError m c) = m"
| "str (Exception m) = m"

text \<open>\<^verbatim>\<open>except ConnectTimeout\<close> and \<^verbatim>\<open>except requests.exceptions.ConnectionError\<close>.\<close>

fun is_ConnectTimeout :: "py_exception \<Rightarrow> bool" where
  "is_ConnectTimeout (ConnectTimeout m) = True"
| "is_ConnectTimeout e = False"

fun is_ConnectionError :: "py_exception \<Rightarrow> bool" where
  "is_ConnectionError (ConnectTimeout m) = True"
| "is_ConnectionError (ConnectionError m) = True"
| "is_ConnectionError e = False"

text \<open>\<^verbatim>\<open>APIError.__init__(self, message, code=400)\<close>: the status when the caller gives none.\<close>

definition APIError_default :: "string \<Rightarrow> py_exception" where
  "APIError_default message = APIError message 400"

text \<open>Python's \<^verbatim>\<open>needle in haystack\<close> on strings.\<close>

fun prefix_of :: "string \<Rightarrow> string \<Rightarrow> bool" where
  "prefix_of [] ys = True"
| "prefix_of (x # xs) [] = False"
| "prefix_of (x # xs) (y # ys) = (x = y \<and> prefix_of xs ys)"

fun str_in :: "string \<Rightarrow> string \<Rightarrow> bool" where
  "str_in needle [] = (needle = [])"
| "str_in needle (c # cs) = (prefix_of needle (c # cs) \<or> str_in needle cs)"

text \<open>
  A chat message of the caller (\<^verbatim>\<open>message.role\<close>, \<^verbatim>\<open>message.content\<close>), a retrieved
  document, and a message of a prompt template, the pair \<^verbatim>\<open>(role, content)\<close>.
\<close>

record Message =
  role :: string
  content :: string

datatype Document = Document (page_content: string) (source: string)

type_synonym prompt_message = "string \<times> string"

subsection \<open>StructuredResponse\<close>

text \<open>
  The model class has the three fields \<^verbatim>\<open>title\<close>, \<^verbatim>\<open>description\<close> and \<^verbatim>\<open>parameters\<close>.
  The parameters are either the default schema that \<^verbatim>\<open>__init__\<close> writes or a dictionary
  that came from elsewhere, kept as an opaque text.
\<close>

datatype parameters = default_parameters | given_parameters string

record StructuredResponse =
  title :: string
  description :: string
  parameters :: parameters

datatype pyval = PStr string | PBool bool | PParams parameters

text \<open>
  \<^verbatim>\<open>StructuredResponse.__init__(self, **data)\<close>: the three defaults are filled in where the
  key is absent, then \<^verbatim>\<open>super().__init__(**data)\<close> validates. The class sets no model
  configuration, so the base model keeps its default for keyword arguments that name no
  field: they are ignored. A field of the wrong type is a validation error.
\<close>

definition StructuredResponse_init :: "(string \<rightharpoonup> pyval) \<Rightarrow> py_exception + StructuredResponse" where
  "StructuredResponse_init data =
    (let data1 = (if data ''parameters'' = None
                  then data(''parameters'' \<mapsto> PParams default_parameters) else data);
         data2 = (if data1 ''title'' = None
                  then data1(''title'' \<mapsto> PStr ''generate_vgpu_config'') else data1);
         data3 = (if data2 ''description'' = None
                  then data2(''description'' \<mapsto> PStr
                    ''Generate the recommended vGPU configuration based on workload requirements and hardware specs.'')
                  else data2)
     in case (data3 ''title'', data3 ''description'', data3 ''parameters'') of
          (Some (PStr t), Some (PStr d), Some (PParams p)) \<Rightarrow>
             Inr \<lparr>title = t, description = d, parameters = p\<rparr>
        | _ \<Rightarrow> Inl (Exception ''ValidationError''))"

text \<open>
  An element of a returned stream: \<^verbatim>\<open>json.dumps(x.model_dump(), ensure_ascii=False, indent=2)\<close>
  of a StructuredResponse, kept as the value it serialises, or a plain string.
\<close>

datatype chunk = Json StructuredResponse | Text string

section \<open>Effects\<close>

text \<open>
  A computation either raises or returns, and leaves the list of the calls it made to the
  collaborators that the properties below speak about.
\<close>

datatype event =
    RetrieverInvoke int string
  | CompressDocuments string
  | RewriterInvoke string "prompt_message list"
  | ChainInvoke "prompt_message list" string "string list"
  | JudgeRelevance
  | JudgeGroundedness
  | Increment

type_synonym 'a io = "(py_exception + 'a) \<times> event list"

definition returnM :: "'a \<Rightarrow> 'a io" where
  "returnM x = (Inr x, [])"

definition raise :: "py_exception \<Rightarrow> 'a io" where
  "raise e = (Inl e, [])"

definition lift :: "py_exception + 'a \<Rightarrow> 'a io" where
  "lift r = (r, [])"

definition call :: "event \<Rightarrow> py_exception + 'a \<Rightarrow> 'a io" where
  "call ev r = (r, [ev])"

definition bindM :: "'a io \<Rightarrow> ('a \<Rightarrow> 'b io) \<Rightarrow> 'b io" where
  "bindM m f =
    (case m of
       (Inl e, t) \<Rightarrow> (Inl e, t)
     | (Inr x, t) \<Rightarrow> (case f x of (r, t') \<Rightarrow> (r, t @ t')))"

text \<open>\<^verbatim>\<open>try: m  except ... as e: handler(e)\<close>, the handlers taken together.\<close>

definition try_except :: "'a io \<Rightarrow> (py_exception \<Rightarrow> 'a io) \<Rightarrow> 'a io" where
  "try_except m handler =
    (case m of
       (Inl e, t) \<Rightarrow> (case handler e of (r, t') \<Rightarrow> (r, t @ t'))
     | (Inr x, t) \<Rightarrow> (Inr x, t))"

text \<open>A list comprehension over a call that may raise.\<close>

fun mapM :: "('a \<Rightarrow> py_exception + 'b) \<Rightarrow> 'a list \<Rightarrow> py_exception + 'b list" where
  "mapM f [] = Inr []"
| "mapM f (x # xs) =
    (case f x of
       Inl e \<Rightarrow> Inl e
     | Inr y \<Rightarrow> (case mapM f xs of Inl e \<Rightarrow> Inl e | Inr ys \<Rightarrow> Inr (y # ys)))"

section \<open>The collaborators and the configuration\<close>

text \<open>Modelled from the spec: \<^verbatim>\<open>ReflectionCounter\<close> is imported from the module
  \<^verbatim>\<open>reflection\<close>, which is not part of the sources at hand. The spec's ReflectionBudget
  has \<open>max_iterations\<close> and \<open>used\<close>, and \<open>remaining = max_iterations - used\<close>; the code
  reads them as \<^verbatim>\<open>ReflectionCounter(max_loops)\<close>, \<^verbatim>\<open>.current_count\<close> and \<^verbatim>\<open>.remaining\<close>.
\<close>

record ReflectionCounter =
  max_loops :: int
  current_count :: int

definition ReflectionCounter_init :: "int \<Rightarrow> ReflectionCounter" where
  "ReflectionCounter_init m = \<lparr>max_loops = m, current_count = 0\<rparr>"

definition remaining :: "ReflectionCounter \<Rightarrow> int" where
  "remaining c = max_loops c - current_count c"

text \<open>
  Everything a request reads from outside \<^verbatim>\<open>chains.py\<close>, as the outcome of the read or the
  call: \<open>Inl\<close> when it raises.
  \<^item> The flags are the values of \<^verbatim>\<open>os.environ.get(NAME, "false").lower() == "true"\<close>; the
    two counts are the outcomes of \<^verbatim>\<open>int(os.environ.get(NAME, default))\<close>.
  \<^item> \<open>chat_template\<close> and \<open>rag_template\<close> are \<^verbatim>\<open>prompts.get(name, "")\<close>; \<open>model\<close> is
    \<^verbatim>\<open>str(kwargs.get("model"))\<close>; \<open>enable_reranker\<close> and \<open>enable_query_rewriting\<close> are the
    truth values of the keyword arguments.
  \<^item> \<open>get_vectorstore\<close> and \<open>get_ranking_model\<close> may return \<^verbatim>\<open>None\<close>.
  \<^item> \<open>retriever_invoke k q\<close> is \<^verbatim>\<open>retriever.invoke(q)\<close> of the retriever made with
    \<^verbatim>\<open>search_kwargs={"k": k}\<close>; \<open>chain_invoke p q c\<close> is \<^verbatim>\<open>(p | structured_llm).invoke\<close> on
    the question \<open>q\<close> and, when given, the context \<open>c\<close>; \<open>query_rewriter\<close> is the invocation
    of the query rewriting chain on the input and the chat history.
  \<^item> \<open>check_context_relevance\<close> and \<open>check_response_groundedness\<close> are functions of the
    module \<^verbatim>\<open>reflection\<close>; they are parameters here. They receive the counter object and
    may change it, so they return it. The first takes the query, the retriever (its \<open>k\<close>),
    the ranker, and the fifth positional argument when the caller passes one. The second
    takes \<^verbatim>\<open>str(initial_response)\<close> (a StructuredResponse has no attribute
    \<^verbatim>\<open>response\<close>), kept as the value it prints, and the formatted documents.
  \<^item> \<open>load\<close>, \<open>get_text_splitter\<close>, \<open>split_documents\<close> and \<open>add_documents\<close> are the calls
    of document ingestion.
\<close>

record env =
  ENABLE_MULTITURN :: bool
  ENABLE_NEMOTRON_THINKING :: bool
  ENABLE_REFLECTION :: bool
  MAX_REFLECTION_LOOP :: "py_exception + int"
  CONVERSATION_HISTORY :: "py_exception + int"
  chat_template :: string
  rag_template :: string
  model :: string
  enable_reranker :: bool
  enable_query_rewriting :: bool
  get_embedding_model :: "py_exception + unit"
  get_vectorstore :: "py_exception + unit option"
  get_llm :: "py_exception + unit"
  get_ranking_model :: "py_exception + unit option"
  as_retriever :: "py_exception + unit"
  from_messages :: "prompt_message list \<Rightarrow> py_exception + unit"
  with_structured_output :: "py_exception + unit"
  retriever_invoke :: "int \<Rightarrow> string \<Rightarrow> py_exception + Document list"
  compress_documents :: "string \<Rightarrow> Document list \<Rightarrow> py_exception + Document list"
  normalize_relevance_scores :: "Document list \<Rightarrow> py_exception + Document list"
  format_document_with_source :: "Document \<Rightarrow> py_exception + string"
  chain_invoke :: "prompt_message list \<Rightarrow> string option \<Rightarrow> string list option
                   \<Rightarrow> py_exception + StructuredResponse"
  query_rewriter :: "string \<Rightarrow> prompt_message list \<Rightarrow> py_exception + string"
  check_context_relevance :: "string \<Rightarrow> int \<Rightarrow> unit option \<Rightarrow> bool option \<Rightarrow> ReflectionCounter
                   \<Rightarrow> (Document list \<times> bool \<times> ReflectionCounter) io"
  check_response_groundedness :: "StructuredResponse \<Rightarrow> string list \<Rightarrow> ReflectionCounter
                   \<Rightarrow> (string \<times> bool \<times> ReflectionCounter) io"
  load :: "py_exception + Document list"
  get_text_splitter :: "py_exception + unit"
  split_documents :: "Document list \<Rightarrow> py_exception + Document list"
  add_documents :: "Document list \<Rightarrow> py_exception + unit"

text \<open>The two tests on the text of an exception that every handler makes.\<close>

definition forbidden_marker :: "py_exception \<Rightarrow> bool" where
  "forbidden_marker e \<longleftrightarrow>
     str_in ''[403] Forbidden'' (str e) \<and> str_in ''Invalid UAM response'' (str e)"

definition not_found_marker :: "py_exception \<Rightarrow> bool" where
  "not_found_marker e \<longleftrightarrow> str_in ''[404] Not Found'' (str e)"

section \<open>ingest_docs\<close>

text \<open>
  The \<^verbatim>\<open>try\<close> block of \<^verbatim>\<open>ingest_docs\<close>. The module's global \<^verbatim>\<open>TEXT_SPLITTER\<close> is passed
  in and returned. \<^verbatim>\<open>vs.add_documents\<close> on \<^verbatim>\<open>None\<close> is an AttributeError.
\<close>

definition ingest_try :: "env \<Rightarrow> unit option \<Rightarrow> (py_exception + unit) \<times> unit option" where
  "ingest_try env TEXT_SPLITTER =
    (case load env of
       Inl e \<Rightarrow> (Inl e, TEXT_SPLITTER)
     | Inr raw_documents \<Rightarrow>
        if raw_documents \<noteq> [] then
          (case (case TEXT_SPLITTER of None \<Rightarrow> get_text_splitter env | Some s \<Rightarrow> Inr s) of
             Inl e \<Rightarrow> (Inl e, TEXT_SPLITTER)
           | Inr s \<Rightarrow>
              (case split_documents env raw_documents of
                 Inl e \<Rightarrow> (Inl e, Some s)
               | Inr documents \<Rightarrow>
                  (case get_vectorstore env of
                     Inl e \<Rightarrow> (Inl e, Some s)
                   | Inr None \<Rightarrow>
                       (Inl (Exception
                          ([CHR 0x27] @ ''NoneType'' @ [CHR 0x27] @ '' object has no attribute '' @
                           [CHR 0x27] @ ''add_documents'' @ [CHR 0x27])),
                        Some s)
                   | Inr (Some vs) \<Rightarrow>
                       (case add_documents env documents of
                          Inl e \<Rightarrow> (Inl e, Some s)
                        | Inr u \<Rightarrow> (Inr (), Some s)))))
        else (Inr (), TEXT_SPLITTER))"

text \<open>The two \<^verbatim>\<open>except\<close> clauses of \<^verbatim>\<open>ingest_docs\<close>: the exception they raise.\<close>

definition ingest_handler :: "py_exception \<Rightarrow> py_exception" where
  "ingest_handler e =
    (if is_ConnectTimeout e then
       APIError ''Connection timed out while accessing the embedding model endpoint. Verify server availability.'' 504
     else if forbidden_marker e then
       APIError ''Authentication or permission error: Verify NVIDIA API key validity and permissions.'' 403
     else if not_found_marker e then
       APIError ''API endpoint or payload is invalid. Ensure the model name is valid.'' 404
     else APIError (''Failed to upload document. '' @ str e) 500)"

definition ingest_docs :: "env \<Rightarrow> unit option \<Rightarrow> (py_exception + unit) \<times> unit option" where
  "ingest_docs env TEXT_SPLITTER =
    (case ingest_try env TEXT_SPLITTER of
       (Inl e, ts) \<Rightarrow> (Inl (ingest_handler e), ts)
     | (Inr u, ts) \<Rightarrow> (Inr u, ts))"

section \<open>Building the prompt\<close>

definition nemotron :: "env \<Rightarrow> bool" where
  "nemotron env \<longleftrightarrow> str_in ''llama-3.3-nemotron-super-49b'' (model env)"

definition thinking_directive :: "env \<Rightarrow> string" where
  "thinking_directive env =
     (if ENABLE_NEMOTRON_THINKING env then ''detailed thinking on'' else ''detailed thinking off'')"

text \<open>
  \<^verbatim>\<open>for message in chat_history\<close> of \<^verbatim>\<open>llm_chain\<close> and \<^verbatim>\<open>rag_chain_with_multiturn\<close>: a system
  turn is appended to the system prompt, any other turn to the conversation history.
\<close>

fun history_loop :: "Message list \<Rightarrow> string \<Rightarrow> prompt_message list \<Rightarrow> string \<times> prompt_message list" where
  "history_loop [] system_prompt conversation_history = (system_prompt, conversation_history)"
| "history_loop (m # ms) system_prompt conversation_history =
    (if role m = ''system''
     then history_loop ms (system_prompt @ '' '' @ content m) conversation_history
     else history_loop ms system_prompt (conversation_history @ [(role m, content m)]))"

text \<open>The same loop in \<^verbatim>\<open>rag_chain\<close>, which has no \<^verbatim>\<open>else\<close> branch.\<close>

fun system_loop :: "Message list \<Rightarrow> string \<Rightarrow> string" where
  "system_loop [] system_prompt = system_prompt"
| "system_loop (m # ms) system_prompt =
    (if role m = ''system''
     then system_loop ms (system_prompt @ '' '' @ content m)
     else system_loop ms system_prompt)"

text \<open>The list \<^verbatim>\<open>message\<close> of \<^verbatim>\<open>llm_chain\<close>.\<close>

definition llm_chain_message :: "env \<Rightarrow> string option \<Rightarrow> Message list \<Rightarrow> prompt_message list" where
  "llm_chain_message env query chat_history =
    (let system_prompt = [] @ chat_template env;
         system_prompt = (if nemotron env then thinking_directive env else system_prompt);
         nemotron_message = (if nemotron env then [(''user'', chat_template env)] else []);
         (system_prompt, conversation_history) = history_loop chat_history system_prompt [];
         system_message = [(''system'', system_prompt)];
         user_message = (if query \<noteq> None \<and> query \<noteq> Some [] then [(''user'', ''{question}'')] else [])
     in system_message @ nemotron_message @ conversation_history @ user_message)"

text \<open>The list \<^verbatim>\<open>message\<close> of \<^verbatim>\<open>rag_chain\<close>; \<^verbatim>\<open>conversation_history\<close> stays empty there.\<close>

definition rag_chain_message :: "env \<Rightarrow> Message list \<Rightarrow> prompt_message list" where
  "rag_chain_message env chat_history =
    (let system_prompt = [] @ rag_template env;
         conversation_history = [];
         user_message = [];
         system_prompt = (if nemotron env then thinking_directive env else system_prompt);
         user_message = (if nemotron env then user_message @ [(''user'', rag_template env)] else user_message);
         system_prompt = system_loop chat_history system_prompt;
         system_message = [(''system'', system_prompt)];
         user_message = user_message @ [(''user'', ''{question}'')]
     in system_message @ conversation_history @ user_message)"

text \<open>Python's \<^verbatim>\<open>xs[n:]\<close>, and \<^verbatim>\<open>chat_history[history_count:]\<close> with
  \<^verbatim>\<open>history_count = K * 2 * -1\<close>.\<close>

definition slice_from :: "int \<Rightarrow> 'a list \<Rightarrow> 'a list" where
  "slice_from n xs = (if n < 0 then drop (nat (int (length xs) + n)) xs else drop (nat n) xs)"

definition truncate_history :: "int \<Rightarrow> 'a list \<Rightarrow> 'a list" where
  "truncate_history K chat_history =
     (let history_count = K * 2 * (- 1) in slice_from history_count chat_history)"

text \<open>
  The conversation history and the list \<^verbatim>\<open>message\<close> of \<^verbatim>\<open>rag_chain_with_multiturn\<close>, from
  the truncated history.
\<close>

definition multiturn_conversation_history :: "env \<Rightarrow> Message list \<Rightarrow> prompt_message list" where
  "multiturn_conversation_history env chat_history =
    (let system_prompt = [] @ rag_template env;
         system_prompt = (if nemotron env then thinking_directive env else system_prompt)
     in snd (history_loop chat_history system_prompt []))"

definition multiturn_message :: "env \<Rightarrow> Message list \<Rightarrow> prompt_message list" where
  "multiturn_message env chat_history =
    (let system_prompt = [] @ rag_template env;
         user_message = [];
         system_prompt = (if nemotron env then thinking_directive env else system_prompt);
         user_message = (if nemotron env then user_message @ [(''user'', rag_template env)] else user_message);
         (system_prompt, conversation_history) = history_loop chat_history system_prompt [];
         system_message = [(''system'', system_prompt)];
         user_message = user_message @ [(''user'', ''{question}'')]
     in system_message @ conversation_history @ user_message)"

section \<open>Returned streams\<close>

text \<open>
  What the caller reads from a returned iterator: the chunks, or the exception that the
  first \<^verbatim>\<open>next\<close> raises. \<^verbatim>\<open>iter([...])\<close> is a list of chunks; a generator function is the
  outcome of running its body, which the caller starts after the function has returned.
\<close>

type_synonym stream = "py_exception + chunk list"

text \<open>\<^verbatim>\<open>json.dumps(StructuredResponse(**data).model_dump(), ensure_ascii=False, indent=2)\<close>.\<close>

definition dumps_new :: "(string \<rightharpoonup> pyval) \<Rightarrow> py_exception + chunk" where
  "dumps_new data =
     (case StructuredResponse_init data of Inl e \<Rightarrow> Inl e | Inr r \<Rightarrow> Inr (Json r))"

text \<open>\<^verbatim>\<open>return iter([json.dumps(StructuredResponse(**data).model_dump(), ...)])\<close> in a handler.\<close>

definition return_error_response :: "(string \<rightharpoonup> pyval) \<Rightarrow> stream io" where
  "return_error_response data =
     bindM (lift (dumps_new data)) (\<lambda>json_response. returnM (Inr [json_response]))"

text \<open>What a function of the generation path returns: a pair, a bare iterator, or \<^verbatim>\<open>None\<close>.\<close>

datatype ret = Tuple stream "Document list" | Bare stream | NoneValue

section \<open>llm_chain\<close>

text \<open>The generator \<^verbatim>\<open>stream_structured_response\<close>, defined inside \<^verbatim>\<open>llm_chain\<close>.\<close>

definition stream_structured_response :: "env \<Rightarrow> prompt_message list \<Rightarrow> string option \<Rightarrow> stream" where
  "stream_structured_response env message query =
    (case chain_invoke env message query None of
       Inr structured_result \<Rightarrow> Inr [Json structured_result]
     | Inl e \<Rightarrow>
        (case dumps_new [''description'' \<mapsto> PStr
                (''Error generating vGPU configuration: '' @ str e @ ''. Unable to provide recommendation.'')] of
           Inl e' \<Rightarrow> Inl e'
         | Inr json_response \<Rightarrow> Inr [json_response]))"

definition llm_chain_try :: "env \<Rightarrow> string option \<Rightarrow> Message list \<Rightarrow> stream io" where
  "llm_chain_try env query chat_history =
    (let message = llm_chain_message env query chat_history in
     bindM (lift (from_messages env message)) (\<lambda>prompt_template.
     bindM (lift (get_llm env)) (\<lambda>llm.
     bindM (lift (with_structured_output env)) (\<lambda>structured_llm.
     returnM (stream_structured_response env message query)))))"

definition llm_chain_handler :: "py_exception \<Rightarrow> stream io" where
  "llm_chain_handler e =
    (if is_ConnectTimeout e then
       return_error_response [''description'' \<mapsto> PStr
         ''Connection timed out while making a request to the NIM endpoint. Verify if the NIM server is available. Unable to generate vGPU configuration.'']
     else if forbidden_marker e then
       return_error_response [''description'' \<mapsto> PStr
         ''Authentication or permission error: Verify the validity and permissions of your NVIDIA API key. Unable to generate vGPU configuration.'']
     else if not_found_marker e then
       return_error_response [''description'' \<mapsto> PStr
         ''Please verify the API endpoint and your payload. Ensure that the model name is valid. Unable to generate vGPU configuration.'']
     else
       return_error_response [''description'' \<mapsto> PStr
         (''Failed to generate RAG chain response. '' @ str e @ ''. Unable to generate vGPU configuration.'')])"

definition llm_chain :: "env \<Rightarrow> string option \<Rightarrow> Message list \<Rightarrow> stream io" where
  "llm_chain env query chat_history =
     try_except (llm_chain_try env query chat_history) llm_chain_handler"

section \<open>rag_chain and rag_chain_with_multiturn\<close>

text \<open>
  Retrieval, shared by the two functions: the branch \<^verbatim>\<open>ENABLE_REFLECTION\<close>, the branch with
  the reranker, and the plain retriever. It returns \<^verbatim>\<open>context_to_show\<close> and the reflection
  counter, which exists only on the first branch. \<open>q\<close> is \<^verbatim>\<open>query\<close> in \<^verbatim>\<open>rag_chain\<close> and
  \<^verbatim>\<open>retriever_query\<close> in \<^verbatim>\<open>rag_chain_with_multiturn\<close>.
\<close>

definition get_context :: "env \<Rightarrow> string \<Rightarrow> int \<Rightarrow> int \<Rightarrow> unit option
    \<Rightarrow> (Document list \<times> ReflectionCounter option) io" where
  "get_context env q top_k reranker_top_k ranker =
    (if ENABLE_REFLECTION env then
       bindM (lift (MAX_REFLECTION_LOOP env)) (\<lambda>max_loops.
       let reflection_counter = ReflectionCounter_init max_loops in
       bindM (check_context_relevance env q top_k ranker None reflection_counter)
         (\<lambda>(context_to_show, is_relevant, reflection_counter).
       returnM (context_to_show, Some reflection_counter)))
     else if ranker \<noteq> None \<and> enable_reranker env then
       bindM (call (RetrieverInvoke top_k q) (retriever_invoke env top_k q)) (\<lambda>docs.
       bindM (call (CompressDocuments q) (compress_documents env q docs)) (\<lambda>docs.
       bindM (lift (normalize_relevance_scores env docs)) (\<lambda>context_to_show.
       returnM (context_to_show, None))))
     else
       bindM (call (RetrieverInvoke top_k q) (retriever_invoke env top_k q)) (\<lambda>context_to_show.
       returnM (context_to_show, None)))"

text \<open>The generator \<^verbatim>\<open>stream_structured_rag_response\<close>, defined inside \<^verbatim>\<open>rag_chain\<close>.\<close>

definition stream_structured_rag_response ::
    "env \<Rightarrow> prompt_message list \<Rightarrow> string \<Rightarrow> string list \<Rightarrow> stream" where
  "stream_structured_rag_response env message query docs =
    (case chain_invoke env message (Some query) (Some docs) of
       Inr structured_result \<Rightarrow> Inr [Json structured_result]
     | Inl e \<Rightarrow>
        (case dumps_new [''description'' \<mapsto> PStr
                (''Error generating RAG vGPU configuration: '' @ str e @ ''. Unable to provide recommendation.'')] of
           Inl e' \<Rightarrow> Inl e'
         | Inr json_response \<Rightarrow> Inr [json_response]))"

text \<open>
  The generator \<^verbatim>\<open>stream_structured_multiturn_response\<close>. A StructuredResponse has no
  attribute \<^verbatim>\<open>sources_used\<close>, so the \<^verbatim>\<open>hasattr\<close> test fails and the result is dumped as
  it is.
\<close>

definition stream_structured_multiturn_response ::
    "env \<Rightarrow> prompt_message list \<Rightarrow> string \<Rightarrow> string list \<Rightarrow> stream" where
  "stream_structured_multiturn_response env message query docs =
    (case chain_invoke env message (Some query) (Some docs) of
       Inr structured_result \<Rightarrow> Inr [Json structured_result]
     | Inl e \<Rightarrow>
        (case dumps_new [''response'' \<mapsto> PStr (''Error generating multiturn RAG response: '' @ str e),
                         ''sources_used'' \<mapsto> PBool True] of
           Inl e' \<Rightarrow> Inl e'
         | Inr json_response \<Rightarrow> Inr [json_response]))"

text \<open>The test \<^verbatim>\<open>ENABLE_REFLECTION == "true" and reflection_counter.remaining > 0\<close>.\<close>

definition groundedness_gate :: "env \<Rightarrow> ReflectionCounter option \<Rightarrow> ReflectionCounter option" where
  "groundedness_gate env reflection_counter =
     (if ENABLE_REFLECTION env then
        (case reflection_counter of
           Some c \<Rightarrow> if remaining c > 0 then Some c else None
         | None \<Rightarrow> None)
      else None)"

text \<open>
  The end of the \<^verbatim>\<open>try\<close> block of \<^verbatim>\<open>rag_chain\<close>, from
  \<^verbatim>\<open>docs = [format_document_with_source(d) for d in context_to_show]\<close> on.
\<close>

definition rag_chain_answer ::
    "env \<Rightarrow> prompt_message list \<Rightarrow> string \<Rightarrow> Document list \<Rightarrow> ReflectionCounter option \<Rightarrow> ret io" where
  "rag_chain_answer env message query context_to_show reflection_counter =
     bindM (lift (mapM (format_document_with_source env) context_to_show)) (\<lambda>docs.
     bindM (lift (with_structured_output env)) (\<lambda>structured_llm.
     case groundedness_gate env reflection_counter of
       Some reflection_counter \<Rightarrow>
         bindM (call (ChainInvoke message query docs)
                  (chain_invoke env message (Some query) (Some docs))) (\<lambda>initial_response.
         bindM (check_response_groundedness env initial_response docs reflection_counter)
           (\<lambda>(final_response, is_grounded, reflection_counter).
         bindM (lift (dumps_new [''description'' \<mapsto> PStr
                  (''vGPU configuration generated with reflection and grounding checks: '' @ final_response)]))
           (\<lambda>json_response.
         returnM (Tuple (Inr [json_response]) context_to_show))))
     | None \<Rightarrow>
         returnM (Tuple (stream_structured_rag_response env message query docs) context_to_show)))"

text \<open>The \<^verbatim>\<open>try\<close> block of \<^verbatim>\<open>rag_chain\<close>, after the dispatch on \<^verbatim>\<open>ENABLE_MULTITURN\<close>.\<close>

definition rag_chain_try :: "env \<Rightarrow> string \<Rightarrow> Message list \<Rightarrow> int \<Rightarrow> int \<Rightarrow> ret io" where
  "rag_chain_try env query chat_history reranker_top_k vdb_top_k =
     bindM (lift (get_embedding_model env)) (\<lambda>document_embedder.
     bindM (lift (get_vectorstore env)) (\<lambda>vs.
     if vs = None then
       raise (APIError ''Vector store not initialized properly. Please check if the vector DB is up and running.'' 500)
     else
     bindM (lift (get_llm env)) (\<lambda>llm.
     bindM (lift (get_ranking_model env)) (\<lambda>ranker.
     let top_k = (if ranker \<noteq> None \<and> enable_reranker env then vdb_top_k else reranker_top_k) in
     bindM (lift (as_retriever env)) (\<lambda>retriever.
     let message = rag_chain_message env chat_history in
     bindM (lift (from_messages env message)) (\<lambda>prompt.
     bindM (get_context env query top_k reranker_top_k ranker) (\<lambda>(context_to_show, reflection_counter).
     rag_chain_answer env message query context_to_show reflection_counter)))))))"

text \<open>
  The three \<^verbatim>\<open>except\<close> clauses of \<^verbatim>\<open>rag_chain\<close>, in their order. The second clause returns
  only under its \<^verbatim>\<open>if\<close>; otherwise the function ends without a \<^verbatim>\<open>return\<close>.
\<close>

definition rag_chain_handler :: "py_exception \<Rightarrow> ret io" where
  "rag_chain_handler e =
    (if is_ConnectTimeout e then
       bindM (return_error_response
         [''response'' \<mapsto> PStr ''Connection timed out while making a request to the NIM endpoint. Verify if the NIM server is available.'',
          ''sources_used'' \<mapsto> PBool True]) (\<lambda>s. returnM (Bare s))
     else if is_ConnectionError e then
       (if str_in ''HTTPConnectionPool'' (str e) then
          bindM (return_error_response
            [''response'' \<mapsto> PStr ''Connection error: Failed to connect to service. Please verify if all required services are running and accessible.'',
             ''sources_used'' \<mapsto> PBool True]) (\<lambda>s. returnM (Bare s))
        else returnM NoneValue)
     else if forbidden_marker e then
       bindM (return_error_response
         [''response'' \<mapsto> PStr ''Authentication or permission error: Verify the validity and permissions of your NVIDIA API key.'',
          ''sources_used'' \<mapsto> PBool True]) (\<lambda>s. returnM (Bare s))
     else if not_found_marker e then
       bindM (return_error_response
         [''response'' \<mapsto> PStr ''Please verify the API endpoint and your payload. Ensure that the model name is valid.'',
          ''sources_used'' \<mapsto> PBool True]) (\<lambda>s. returnM (Bare s))
     else
       bindM (return_error_response
         [''response'' \<mapsto> PStr (''Failed to generate RAG chain response. '' @ str e),
          ''sources_used'' \<mapsto> PBool True]) (\<lambda>s. returnM (Bare s)))"

text \<open>
  Python's \<^verbatim>\<open>sep.join(xs)\<close>, used as \<^verbatim>\<open>". ".join([*user_queries, query])\<close>, and
  \<^verbatim>\<open>retriever_query.replace('"', "'")\<close>.
\<close>

fun join :: "string \<Rightarrow> string list \<Rightarrow> string" where
  "join sep [] = []"
| "join sep [x] = x"
| "join sep (x # y # ys) = x @ sep @ join sep (y # ys)"

definition replace_quotes :: "string \<Rightarrow> string" where
  "replace_quotes s = map (\<lambda>c. if c = CHR 0x22 then CHR 0x27 else c) s"

text \<open>The test under which the rewritten query ends the request.\<close>

definition empty_rewrite :: "string \<Rightarrow> bool" where
  "empty_rewrite retriever_query \<longleftrightarrow>
     replace_quotes retriever_query = [CHR 0x27, CHR 0x27] \<or> length retriever_query = 0"

text \<open>\<^verbatim>\<open>[msg.content for msg in chat_history if msg.role == "user"]\<close>.\<close>

definition user_queries :: "Message list \<Rightarrow> string list" where
  "user_queries chat_history = map content (filter (\<lambda>msg. role msg = ''user'') chat_history)"

text \<open>
  The block \<^verbatim>\<open>retriever_query = query; if chat_history: ...\<close> of \<^verbatim>\<open>rag_chain_with_multiturn\<close>,
  on the truncated history. \<open>None\<close> is the early \<^verbatim>\<open>return iter([""])\<close>.
\<close>

definition multiturn_retriever_query :: "env \<Rightarrow> string \<Rightarrow> Message list \<Rightarrow> string option io" where
  "multiturn_retriever_query env query chat_history =
    (if chat_history \<noteq> [] then
       (if enable_query_rewriting env then
          (let conversation_history = multiturn_conversation_history env chat_history in
           bindM (call (RewriterInvoke query conversation_history)
                    (query_rewriter env query conversation_history)) (\<lambda>retriever_query.
           if empty_rewrite retriever_query then returnM None
           else returnM (Some retriever_query)))
        else returnM (Some (join ''. '' (user_queries chat_history @ [query]))))
     else returnM (Some query))"

text \<open>
  The end of the \<^verbatim>\<open>try\<close> block of \<^verbatim>\<open>rag_chain_with_multiturn\<close>, from
  \<^verbatim>\<open>docs = [format_document_with_source(d) for d in context_to_show]\<close> on.
\<close>

definition multiturn_answer ::
    "env \<Rightarrow> prompt_message list \<Rightarrow> string \<Rightarrow> Document list \<Rightarrow> ReflectionCounter option \<Rightarrow> ret io" where
  "multiturn_answer env message query context_to_show reflection_counter =
     bindM (lift (mapM (format_document_with_source env) context_to_show)) (\<lambda>docs.
     bindM (lift (with_structured_output env)) (\<lambda>structured_llm.
     case groundedness_gate env reflection_counter of
       Some reflection_counter \<Rightarrow>
         bindM (call (ChainInvoke message query docs)
                  (chain_invoke env message (Some query) (Some docs))) (\<lambda>initial_response.
         bindM (check_response_groundedness env initial_response docs reflection_counter)
           (\<lambda>(final_response, is_grounded, reflection_counter).
         bindM (lift (dumps_new
                  [''response'' \<mapsto> PStr final_response,
                   ''sources_used'' \<mapsto> PBool True,
                   ''reasoning'' \<mapsto> PStr ''Response generated with multiturn RAG, reflection and grounding checks'']))
           (\<lambda>json_response.
         returnM (Tuple (Inr [json_response]) context_to_show))))
     | None \<Rightarrow>
         returnM (Tuple (stream_structured_multiturn_response env message query docs)
                    context_to_show)))"

text \<open>The \<^verbatim>\<open>try\<close> block of \<^verbatim>\<open>rag_chain_with_multiturn\<close>.\<close>

definition rag_chain_with_multiturn_try :: "env \<Rightarrow> string \<Rightarrow> Message list \<Rightarrow> int \<Rightarrow> int \<Rightarrow> ret io" where
  "rag_chain_with_multiturn_try env query chat_history reranker_top_k vdb_top_k =
     bindM (lift (get_embedding_model env)) (\<lambda>document_embedder.
     bindM (lift (get_vectorstore env)) (\<lambda>vs.
     if vs = None then
       raise (APIError ''Vector store not initialized properly. Please check if the vector DB is up and running.'' 500)
     else
     bindM (lift (get_llm env)) (\<lambda>llm.
     bindM (lift (get_ranking_model env)) (\<lambda>ranker.
     let top_k = (if ranker \<noteq> None \<and> enable_reranker env then vdb_top_k else reranker_top_k) in
     bindM (lift (as_retriever env)) (\<lambda>retriever.
     bindM (lift (CONVERSATION_HISTORY env)) (\<lambda>K.
     let chat_history = truncate_history K chat_history in
     bindM (multiturn_retriever_query env query chat_history) (\<lambda>formulated.
     case formulated of
       None \<Rightarrow> returnM (Bare (Inr [Text []]))
     | Some retriever_query \<Rightarrow>
     let message = multiturn_message env chat_history in
     bindM (lift (from_messages env message)) (\<lambda>prompt.
     bindM (get_context env retriever_query top_k reranker_top_k ranker)
       (\<lambda>(context_to_show, reflection_counter).
     multiturn_answer env message query context_to_show reflection_counter)))))))))"

text \<open>The three \<^verbatim>\<open>except\<close> clauses of \<^verbatim>\<open>rag_chain_with_multiturn\<close>.\<close>

definition rag_chain_with_multiturn_handler :: "py_exception \<Rightarrow> ret io" where
  "rag_chain_with_multiturn_handler e =
    (if is_ConnectTimeout e then
       bindM (return_error_response
         [''response'' \<mapsto> PStr ''Connection timed out while making a request to the NIM endpoint. Verify if the NIM server is available.'',
          ''sources_used'' \<mapsto> PBool True]) (\<lambda>s. returnM (Bare s))
     else if is_ConnectionError e then
       (if str_in ''HTTPConnectionPool'' (str e) then
          bindM (return_error_response
            [''response'' \<mapsto> PStr ''Connection error: Failed to connect to service. Please verify if all required NIMs are running and accessible.'',
             ''sources_used'' \<mapsto> PBool True]) (\<lambda>s. returnM (Bare s))
        else returnM NoneValue)
     else if forbidden_marker e then
       bindM (return_error_response
         [''response'' \<mapsto> PStr ''Authentication or permission error: Verify the validity and permissions of your NVIDIA API key.'',
          ''sources_used'' \<mapsto> PBool True]) (\<lambda>s. returnM (Bare s))
     else if not_found_marker e then
       bindM (return_error_response
         [''response'' \<mapsto> PStr ''Please verify the API endpoint and your payload. Ensure that the model name is valid.'',
          ''sources_used'' \<mapsto> PBool True]) (\<lambda>s. returnM (Bare s))
     else
       bindM (return_error_response
         [''response'' \<mapsto> PStr (''Failed to generate RAG chain with multi-turn response. '' @ str e),
          ''sources_used'' \<mapsto> PBool True]) (\<lambda>s. returnM (Bare s)))"

definition rag_chain_with_multiturn :: "env \<Rightarrow> string \<Rightarrow> Message list \<Rightarrow> int \<Rightarrow> int \<Rightarrow> ret io" where
  "rag_chain_with_multiturn env query chat_history reranker_top_k vdb_top_k =
     try_except (rag_chain_with_multiturn_try env query chat_history reranker_top_k vdb_top_k)
       rag_chain_with_multiturn_handler"

definition rag_chain :: "env \<Rightarrow> string \<Rightarrow> Message list \<Rightarrow> int \<Rightarrow> int \<Rightarrow> ret io" where
  "rag_chain env query chat_history reranker_top_k vdb_top_k =
    (if ENABLE_MULTITURN env then
       rag_chain_with_multiturn env query chat_history reranker_top_k vdb_top_k
     else
       try_except (rag_chain_try env query chat_history reranker_top_k vdb_top_k) rag_chain_handler)"

section \<open>document_search\<close>

text \<open>
  The block \<^verbatim>\<open>retriever_query = content; if messages: ...\<close> of \<^verbatim>\<open>document_search\<close>. The
  history is cut inside the branch of query rewriting only. \<open>None\<close> is the early
  \<^verbatim>\<open>return []\<close>.
\<close>

definition search_retriever_query :: "env \<Rightarrow> string \<Rightarrow> Message list \<Rightarrow> string option io" where
  "search_retriever_query env content_arg messages =
    (if messages \<noteq> [] then
       (if enable_query_rewriting env then
          bindM (lift (CONVERSATION_HISTORY env)) (\<lambda>K.
          let messages = truncate_history K messages;
              conversation_history =
                map (\<lambda>message. (role message, content message))
                  (filter (\<lambda>message. role message \<noteq> ''system'') messages) in
          bindM (call (RewriterInvoke content_arg conversation_history)
                   (query_rewriter env content_arg conversation_history)) (\<lambda>retriever_query.
          if empty_rewrite retriever_query then returnM None
          else returnM (Some retriever_query)))
        else returnM (Some (join ''. '' (user_queries messages @ [content_arg]))))
     else returnM (Some content_arg))"

text \<open>The \<^verbatim>\<open>try\<close> block of \<^verbatim>\<open>document_search\<close>.\<close>

definition document_search_try :: "env \<Rightarrow> string \<Rightarrow> Message list \<Rightarrow> int \<Rightarrow> int \<Rightarrow> Document list io" where
  "document_search_try env content_arg messages reranker_top_k vdb_top_k =
     bindM (lift (get_embedding_model env)) (\<lambda>document_embedder.
     bindM (lift (get_vectorstore env)) (\<lambda>vs.
     if vs = None then raise (ValueError [])
     else
     bindM (lift (get_ranking_model env)) (\<lambda>local_ranker.
     let top_k = (if local_ranker \<noteq> None \<and> enable_reranker env then vdb_top_k else reranker_top_k) in
     bindM (lift (as_retriever env)) (\<lambda>retriever.
     bindM (search_retriever_query env content_arg messages) (\<lambda>formulated.
     case formulated of
       None \<Rightarrow> returnM []
     | Some retriever_query \<Rightarrow>
     if ENABLE_REFLECTION env then
       bindM (lift (MAX_REFLECTION_LOOP env)) (\<lambda>max_loops.
       let reflection_counter = ReflectionCounter_init max_loops in
       bindM (check_context_relevance env content_arg top_k local_ranker
                (Some (enable_reranker env)) reflection_counter)
         (\<lambda>(docs, is_relevant, reflection_counter).
       returnM docs))
     else if local_ranker \<noteq> None \<and> enable_reranker env then
       bindM (call (RetrieverInvoke top_k retriever_query)
                (retriever_invoke env top_k retriever_query)) (\<lambda>docs.
       bindM (call (CompressDocuments retriever_query)
                (compress_documents env retriever_query docs)) (\<lambda>docs.
       bindM (lift (normalize_relevance_scores env docs)) (\<lambda>docs.
       returnM docs)))
     else
       bindM (call (RetrieverInvoke top_k retriever_query)
                (retriever_invoke env top_k retriever_query)) (\<lambda>docs.
       returnM docs))))))"

text \<open>\<^verbatim>\<open>except Exception as e: raise APIError(f"Failed to search documents. {str(e)}") from e\<close>.\<close>

definition document_search_handler :: "py_exception \<Rightarrow> Document list io" where
  "document_search_handler e = raise (APIError_default (''Failed to search documents. '' @ str e))"

definition document_search :: "env \<Rightarrow> string \<Rightarrow> Message list \<Rightarrow> int \<Rightarrow> int \<Rightarrow> Document list io" where
  "document_search env content_arg messages reranker_top_k vdb_top_k =
     try_except (document_search_try env content_arg messages reranker_top_k vdb_top_k)
       document_search_handler"

section \<open>The reflection controller of the spec\<close>

text \<open>Modelled from the spec: \<^verbatim>\<open>check_context_relevance\<close> is a function of the module
  \<^verbatim>\<open>reflection\<close>, which is missing. The spec's context-relevance loop: retrieve with the
  current query, evaluate the relevance of the retrieved set, accept when it is relevant;
  when it is not and \<open>used < max_iterations\<close>, increment \<open>used\<close> and retry; when it is not
  and the budget is used up, leave with \<open>is_relevant = false\<close> and the most recent
  context. \<open>judge n\<close> is the judgment made when \<open>used = n\<close>. A failure of the retriever
  is not caught inside the loop.
\<close>

function spec_check_context_relevance ::
    "(int \<Rightarrow> string \<Rightarrow> py_exception + Document list) \<Rightarrow> (int \<Rightarrow> string \<Rightarrow> Document list \<Rightarrow> bool)
     \<Rightarrow> string \<Rightarrow> int \<Rightarrow> unit option \<Rightarrow> bool option \<Rightarrow> ReflectionCounter
     \<Rightarrow> (Document list \<times> bool \<times> ReflectionCounter) io" where
  "spec_check_context_relevance retrieve judge q k ranker flag c =
    (case retrieve k q of
       Inl e \<Rightarrow> (Inl e, [RetrieverInvoke k q])
     | Inr docs \<Rightarrow>
        if judge (current_count c) q docs then
          (Inr (docs, True, c), [RetrieverInvoke k q, JudgeRelevance])
        else if current_count c < max_loops c then
          (case spec_check_context_relevance retrieve judge q k ranker flag
                  (c\<lparr>current_count := current_count c + 1\<rparr>) of
             (r, t) \<Rightarrow> (r, [RetrieverInvoke k q, JudgeRelevance, Increment] @ t))
        else (Inr (docs, False, c), [RetrieverInvoke k q, JudgeRelevance]))"
  by pat_completeness auto
termination
  by (relation "measure (\<lambda>(retrieve, judge, q, k, ranker, flag, c). nat (max_loops c - current_count c))")
     auto

text \<open>Modelled from the spec: \<^verbatim>\<open>check_response_groundedness\<close>, of the same missing module. The
  spec's response-groundedness loop: evaluate whether the candidate answer is supported by
  the context, accept when it is; when it is not and budget remains, increment \<open>used\<close>,
  regenerate and retry; when the budget is used up, accept the last candidate and report
  it as not grounded. The first candidate is the answer the caller generated.
\<close>

function groundedness_loop ::
    "(int \<Rightarrow> string \<Rightarrow> string list \<Rightarrow> string) \<Rightarrow> (int \<Rightarrow> string \<Rightarrow> string list \<Rightarrow> bool)
     \<Rightarrow> string \<Rightarrow> string list \<Rightarrow> ReflectionCounter \<Rightarrow> (string \<times> bool \<times> ReflectionCounter) io" where
  "groundedness_loop regenerate judge candidate docs c =
    (if judge (current_count c) candidate docs then
       (Inr (candidate, True, c), [JudgeGroundedness])
     else if current_count c < max_loops c then
       (case groundedness_loop regenerate judge (regenerate (current_count c) candidate docs) docs
               (c\<lparr>current_count := current_count c + 1\<rparr>) of
          (r, t) \<Rightarrow> (r, [JudgeGroundedness, Increment] @ t))
     else (Inr (candidate, False, c), [JudgeGroundedness]))"
  by pat_completeness auto
termination
  by (relation "measure (\<lambda>(regenerate, judge, candidate, docs, c). nat (max_loops c - current_count c))")
     auto

text \<open>Modelled from the spec: the entry of the response-groundedness loop, as the caller
  uses it. The first candidate is the text of the answer that the caller passes in.
\<close>

definition spec_check_response_groundedness ::
    "(StructuredResponse \<Rightarrow> string) \<Rightarrow> (int \<Rightarrow> string \<Rightarrow> string list \<Rightarrow> string)
     \<Rightarrow> (int \<Rightarrow> string \<Rightarrow> string list \<Rightarrow> bool)
     \<Rightarrow> StructuredResponse \<Rightarrow> string list \<Rightarrow> ReflectionCounter \<Rightarrow> (string \<times> bool \<times> ReflectionCounter) io" where
  "spec_check_response_groundedness render regenerate judge initial_response docs c =
     groundedness_loop regenerate judge (render initial_response) docs c"

text \<open>The number of increments of the counter that a run made.\<close>

definition increments :: "event list \<Rightarrow> int" where
  "increments t = int (length (filter (\<lambda>ev. ev = Increment) t))"

text \<open>An environment with the spec's reflection controller in place of the missing module.\<close>

definition with_spec_reflection ::
    "env \<Rightarrow> (int \<Rightarrow> string \<Rightarrow> Document list \<Rightarrow> bool) \<Rightarrow> (StructuredResponse \<Rightarrow> string)
     \<Rightarrow> (int \<Rightarrow> string \<Rightarrow> string list \<Rightarrow> string) \<Rightarrow> (int \<Rightarrow> string \<Rightarrow> string list \<Rightarrow> bool) \<Rightarrow> env" where
  "with_spec_reflection env judge_relevance render regenerate judge_groundedness =
     env\<lparr>check_context_relevance := spec_check_context_relevance (retriever_invoke env) judge_relevance,
         check_response_groundedness :=
           spec_check_response_groundedness render regenerate judge_groundedness\<rparr>"

section \<open>The message sequence of the spec\<close>

text \<open>
  The spec's words for the response generator: system instructions, then the optional
  primer message, then the conversation history, then the formatted context, then the
  user query.
\<close>

definition spec_message_sequence ::
    "string \<Rightarrow> prompt_message list \<Rightarrow> prompt_message list \<Rightarrow> prompt_message list \<Rightarrow> prompt_message
     \<Rightarrow> prompt_message list" where
  "spec_message_sequence system_instructions primer history formatted_context user_query =
     [(''system'', system_instructions)] @ primer @ history @ formatted_context @ [user_query]"

text \<open>The parts of the sequences that the code builds, named for the statements below.\<close>

definition system_instructions :: "env \<Rightarrow> string \<Rightarrow> Message list \<Rightarrow> string" where
  "system_instructions env template chat_history =
     (if nemotron env then thinking_directive env else template) @
     concat (map (\<lambda>m. '' '' @ content m) (filter (\<lambda>m. role m = ''system'') chat_history))"

definition primer_message :: "env \<Rightarrow> string \<Rightarrow> prompt_message list" where
  "primer_message env template = (if nemotron env then [(''user'', template)] else [])"

definition history_turns :: "Message list \<Rightarrow> prompt_message list" where
  "history_turns chat_history =
     map (\<lambda>m. (role m, content m)) (filter (\<lambda>m. role m \<noteq> ''system'') chat_history)"

section \<open>Sample environments\<close>

definition sample_answer :: StructuredResponse where
  "sample_answer = \<lparr>title = ''generate_vgpu_config'', description = ''Use profile L40S-8Q.'',
                     parameters = given_parameters ''{}''\<rparr>"

definition sample_env :: env where
  "sample_env =
    \<lparr>ENABLE_MULTITURN = False,
     ENABLE_NEMOTRON_THINKING = False,
     ENABLE_REFLECTION = False,
     MAX_REFLECTION_LOOP = Inr 3,
     CONVERSATION_HISTORY = Inr 15,
     chat_template = ''You are a helpful assistant.'',
     rag_template = ''Answer from the context: {context}'',
     model = ''meta/llama-3.1-70b-instruct'',
     enable_reranker = False,
     enable_query_rewriting = False,
     get_embedding_model = Inr (),
     get_vectorstore = Inr (Some ()),
     get_llm = Inr (),
     get_ranking_model = Inr (Some ()),
     as_retriever = Inr (),
     from_messages = (\<lambda>message. Inr ()),
     with_structured_output = Inr (),
     retriever_invoke = (\<lambda>k q. Inr [Document ''vGPU profiles'' ''guide.pdf'']),
     compress_documents = (\<lambda>q docs. Inr docs),
     normalize_relevance_scores = (\<lambda>docs. Inr docs),
     format_document_with_source = (\<lambda>d. Inr (page_content d)),
     chain_invoke = (\<lambda>message q c. Inr sample_answer),
     query_rewriter = (\<lambda>q h. Inr q),
     check_context_relevance = (\<lambda>q k ranker flag c. (Inr ([], True, c), [])),
     check_response_groundedness = (\<lambda>r docs c. (Inr ([], True, c), [])),
     load = Inr [Document ''vGPU profiles'' ''guide.pdf''],
     get_text_splitter = Inr (),
     split_documents = (\<lambda>docs. Inr docs),
     add_documents = (\<lambda>docs. Inr ())\<rparr>"

definition sample_history :: "Message list" where
  "sample_history =
     [\<lparr>role = ''user'', content = ''a''\<rparr>,
      \<lparr>role = ''assistant'', content = ''x''\<rparr>,
      \<lparr>role = ''user'', content = ''b''\<rparr>,
      \<lparr>role = ''assistant'', content = ''y''\<rparr>]"

definition sample_env_empty_rewrite :: env where
  "sample_env_empty_rewrite =
     sample_env\<lparr>ENABLE_MULTITURN := True, enable_query_rewriting := True,
                query_rewriter := (\<lambda>q h. Inr [])\<rparr>"

definition sample_env_nemotron :: env where
  "sample_env_nemotron = sample_env\<lparr>model := ''nvidia/llama-3.3-nemotron-super-49b-v1''\<rparr>"

definition sample_env_reflection :: env where
  "sample_env_reflection =
     with_spec_reflection (sample_env\<lparr>ENABLE_MULTITURN := True, ENABLE_REFLECTION := True\<rparr>)
       (\<lambda>n q docs. False) description (\<lambda>n candidate docs. candidate) (\<lambda>n candidate docs. False)"

section \<open>Auxiliary notions\<close>

text \<open>
  The exceptions that reach the second \<^verbatim>\<open>except\<close> clause of \<^verbatim>\<open>rag_chain\<close> and of
  \<^verbatim>\<open>rag_chain_with_multiturn\<close> and fail its \<^verbatim>\<open>if\<close>: a ConnectionError that is not a
  ConnectTimeout, without \<^verbatim>\<open>HTTPConnectionPool\<close> in its text.
\<close>

definition unanswered :: "py_exception \<Rightarrow> bool" where
  "unanswered e \<longleftrightarrow>
     is_ConnectionError e \<and> \<not> is_ConnectTimeout e \<and> \<not> str_in ''HTTPConnectionPool'' (str e)"

text \<open>What \<^verbatim>\<open>StructuredResponse(**data)\<close> is when \<^verbatim>\<open>data\<close> has none of the three fields.\<close>

definition default_response :: StructuredResponse where
  "default_response =
     \<lparr>title = ''generate_vgpu_config'',
      description = ''Generate the recommended vGPU configuration based on workload requirements and hardware specs.'',
      parameters = default_parameters\<rparr>"

section \<open>Laws of the effects\<close>

lemmas io_defs = bindM_def lift_def returnM_def call_def raise_def try_except_def

lemma bindM_lift_Inr: "bindM (lift (Inr x)) f = f x"
  by (simp add: bindM_def lift_def split: prod.splits)

lemma bindM_lift_Inl: "bindM (lift (Inl e)) f = (Inl e, [])"
  by (simp add: bindM_def lift_def)

lemma bindM_returnM: "bindM (returnM x) f = f x"
  by (simp add: bindM_def returnM_def split: prod.splits)

lemma bindM_raise: "bindM (raise e) f = (Inl e, [])"
  by (simp add: bindM_def raise_def)

lemma bindM_call_Inr: "bindM (call ev (Inr x)) f = (fst (f x), ev # snd (f x))"
  by (simp add: bindM_def call_def split: prod.splits)

lemma bindM_call_Inl: "bindM (call ev (Inl e)) f = (Inl e, [ev])"
  by (simp add: bindM_def call_def)

lemma bindM_InrE:
  assumes "bindM m f = (Inr r, t)"
  obtains x t1 t2 where "m = (Inr x, t1)" "f x = (Inr r, t2)" "t = t1 @ t2"
  using assms by (auto simp: bindM_def split: prod.splits sum.splits)

lemma lift_eq: "lift r = (Inr x, t) \<longleftrightarrow> r = Inr x \<and> t = []"
  by (auto simp: lift_def)

lemma returnM_eq: "returnM x = (Inr y, t) \<longleftrightarrow> x = y \<and> t = []"
  by (auto simp: returnM_def)

lemma raise_neq: "raise e \<noteq> (Inr y, t)"
  by (auto simp: raise_def)

section \<open>The constructor of StructuredResponse\<close>

lemma StructuredResponse_init_description:
  "StructuredResponse_init [''description'' \<mapsto> PStr d] = Inr (default_response\<lparr>description := d\<rparr>)"
  by (simp add: StructuredResponse_init_def default_response_def)

lemma StructuredResponse_init_response:
  "StructuredResponse_init [''response'' \<mapsto> PStr d, ''sources_used'' \<mapsto> PBool b] = Inr default_response"
  by (simp add: StructuredResponse_init_def default_response_def)

lemma StructuredResponse_init_reasoning:
  "StructuredResponse_init
     [''response'' \<mapsto> PStr d, ''sources_used'' \<mapsto> PBool b, ''reasoning'' \<mapsto> PStr r] = Inr default_response"
  by (simp add: StructuredResponse_init_def default_response_def)

lemma return_error_response_response:
  "return_error_response [''response'' \<mapsto> PStr d, ''sources_used'' \<mapsto> PBool b] =
     (Inr (Inr [Json default_response]), [])"
  by (simp add: return_error_response_def dumps_new_def StructuredResponse_init_response
      bindM_lift_Inr returnM_def)

lemma return_error_response_description:
  "return_error_response [''description'' \<mapsto> PStr d] =
     (Inr (Inr [Json (default_response\<lparr>description := d\<rparr>)]), [])"
  by (simp add: return_error_response_def dumps_new_def StructuredResponse_init_description
      bindM_lift_Inr returnM_def)

section \<open>What the blocks of the generation path return\<close>

lemma rag_chain_answer_shape:
  assumes "rag_chain_answer env message query ctx rc = (Inr r, t)"
  shows "\<exists>sr. r = Tuple (Inr [Json sr]) ctx"
  using assms
  unfolding rag_chain_answer_def
  by (auto elim!: bindM_InrE
      simp: lift_eq returnM_eq dumps_new_def StructuredResponse_init_description
        stream_structured_rag_response_def
      split: option.splits sum.splits prod.splits)

lemma multiturn_answer_shape:
  assumes "multiturn_answer env message query ctx rc = (Inr r, t)"
  shows "\<exists>sr. r = Tuple (Inr [Json sr]) ctx"
  using assms
  unfolding multiturn_answer_def
  by (auto elim!: bindM_InrE
      simp: lift_eq returnM_eq dumps_new_def StructuredResponse_init_response
        StructuredResponse_init_reasoning stream_structured_multiturn_response_def
      split: option.splits sum.splits prod.splits)

lemma rag_chain_try_shape:
  assumes "rag_chain_try env query chat_history reranker_top_k vdb_top_k = (Inr r, t)"
  shows "\<exists>sr ctx rc k ranker t1.
           get_context env query k reranker_top_k ranker = (Inr (ctx, rc), t1) \<and>
           r = Tuple (Inr [Json sr]) ctx"
  using assms
  unfolding rag_chain_try_def Let_def
  by (auto elim!: bindM_InrE simp: lift_eq raise_neq split: if_splits)
     (blast dest: rag_chain_answer_shape)+

lemma rag_chain_with_multiturn_try_shape:
  assumes "rag_chain_with_multiturn_try env query chat_history reranker_top_k vdb_top_k = (Inr r, t)"
  shows "(\<exists>sr ctx rc q k ranker t1.
            get_context env q k reranker_top_k ranker = (Inr (ctx, rc), t1) \<and>
            r = Tuple (Inr [Json sr]) ctx)
         \<or> r = Bare (Inr [Text []])"
  using assms
  unfolding rag_chain_with_multiturn_try_def Let_def
  by (auto elim!: bindM_InrE simp: lift_eq raise_neq returnM_eq split: if_splits option.splits)
     (blast dest: multiturn_answer_shape)+

lemma rag_chain_handler_shape:
  "rag_chain_handler e =
     (if unanswered e then (Inr NoneValue, []) else (Inr (Bare (Inr [Json default_response])), []))"
  by (simp add: rag_chain_handler_def unanswered_def return_error_response_response
      bindM_def returnM_def)

lemma rag_chain_with_multiturn_handler_shape:
  "rag_chain_with_multiturn_handler e =
     (if unanswered e then (Inr NoneValue, []) else (Inr (Bare (Inr [Json default_response])), []))"
  by (simp add: rag_chain_with_multiturn_handler_def unanswered_def return_error_response_response
      bindM_def returnM_def)

section \<open>Unfolding the functions on concrete inputs\<close>

lemmas chain_defs =
  rag_chain_def rag_chain_try_def rag_chain_handler_def rag_chain_answer_def
  rag_chain_with_multiturn_def rag_chain_with_multiturn_try_def rag_chain_with_multiturn_handler_def
  multiturn_answer_def multiturn_retriever_query_def get_context_def groundedness_gate_def
  stream_structured_rag_response_def stream_structured_multiturn_response_def
  return_error_response_def dumps_new_def StructuredResponse_init_def
  rag_chain_message_def multiturn_message_def multiturn_conversation_history_def
  truncate_history_def slice_from_def nemotron_def thinking_directive_def
  user_queries_def empty_rewrite_def replace_quotes_def
  forbidden_marker_def not_found_marker_def
  document_search_def document_search_try_def document_search_handler_def search_retriever_query_def
  APIError_default_def
  llm_chain_def llm_chain_try_def llm_chain_handler_def llm_chain_message_def
  stream_structured_response_def default_response_def

section \<open>Histories and the effects on pairs\<close>

lemma bindM_Inr_pair: "bindM (Inr x, t) f = (fst (f x), t @ snd (f x))"
  by (simp add: bindM_def split: prod.splits)

lemma bindM_Inl_pair: "bindM (Inl e, t) f = (Inl e, t)"
  by (simp add: bindM_def)

lemma try_except_Inr: "try_except (Inr x, t) handler = (Inr x, t)"
  by (simp add: try_except_def)

lemma try_except_Inl: "try_except (Inl e, t) handler = (fst (handler e), t @ snd (handler e))"
  by (simp add: try_except_def split: prod.splits)

lemma snd_history_loop:
  "snd (history_loop h sp ch) = ch @ history_turns h"
  by (induction h arbitrary: sp ch) (auto simp: history_turns_def)

lemma fst_history_loop:
  "fst (history_loop h sp ch) =
     sp @ concat (map (\<lambda>m. '' '' @ content m) (filter (\<lambda>m. role m = ''system'') h))"
  by (induction h arbitrary: sp ch) auto

lemma system_loop_eq:
  "system_loop h sp = sp @ concat (map (\<lambda>m. '' '' @ content m) (filter (\<lambda>m. role m = ''system'') h))"
  by (induction h arbitrary: sp) auto

lemma truncate_history_last:
  assumes "0 < K"
  shows "truncate_history K h = drop (length h - nat (2 * K)) h"
proof -
  have "nat (int (length h) - K * 2) = length h - nat (2 * K)"
    using assms by (simp add: nat_diff_distrib' mult.commute)
  then show ?thesis
    using assms by (simp add: truncate_history_def slice_from_def)
qed

lemma truncate_history_idem:
  assumes "0 < K"
  shows "truncate_history K (truncate_history K h) = truncate_history K h"
  using assms by (simp add: truncate_history_last)

lemma truncate_history_Nil_iff:
  assumes "0 < K"
  shows "truncate_history K h = [] \<longleftrightarrow> h = []"
  using assms by (cases h) (auto simp add: truncate_history_last)


lemma multiturn_truncated:
  assumes "CONVERSATION_HISTORY env = Inr K" "0 < K"
  shows "rag_chain_with_multiturn env q h rk vk =
         rag_chain_with_multiturn env q (truncate_history K h) rk vk"
  using assms
  by (simp add: rag_chain_with_multiturn_def rag_chain_with_multiturn_try_def bindM_lift_Inr
      truncate_history_idem Let_def cong: if_cong)

lemma search_truncated:
  assumes "CONVERSATION_HISTORY env = Inr K" "0 < K" "enable_query_rewriting env"
  shows "document_search env q h rk vk = document_search env q (truncate_history K h) rk vk"
  using assms
  by (simp add: document_search_def document_search_try_def search_retriever_query_def bindM_lift_Inr
      truncate_history_idem truncate_history_Nil_iff Let_def cong: if_cong)



section \<open>Outcomes of the four functions\<close>

lemma llm_chain_try_Inr:
  assumes "llm_chain_try env query h = (Inr s, t)"
  shows "t = [] \<and> (\<exists>sr. s = Inr [Json sr])"
  using assms
  unfolding llm_chain_try_def Let_def
  by (auto elim!: bindM_InrE
      simp: lift_eq returnM_eq stream_structured_response_def dumps_new_def
        StructuredResponse_init_description
      split: sum.splits)

lemma llm_chain_try_Inl:
  assumes "llm_chain_try env query h = (Inl e, t)"
  shows "t = []"
  using assms
  unfolding llm_chain_try_def Let_def
  by (auto simp: io_defs split: sum.splits prod.splits)

lemma llm_chain_handler_shape:
  "\<exists>sr. llm_chain_handler e = (Inr (Inr [Json sr]), [])"
  by (simp add: llm_chain_handler_def return_error_response_description)

lemma llm_chain_total:
  "\<exists>sr. llm_chain env query h = (Inr (Inr [Json sr]), [])"
proof (cases "llm_chain_try env query h")
  case (Pair r t)
  show ?thesis
  proof (cases r)
    case (Inl e)
    with Pair have "t = []" by (simp add: llm_chain_try_Inl)
    moreover obtain sr where "llm_chain_handler e = (Inr (Inr [Json sr]), [])"
      using llm_chain_handler_shape by blast
    ultimately show ?thesis
      using Pair Inl by (simp add: llm_chain_def try_except_Inl)
  next
    case (Inr s)
    with Pair have "t = [] \<and> (\<exists>sr. s = Inr [Json sr])" by (simp add: llm_chain_try_Inr)
    then show ?thesis
      using Pair Inr by (auto simp add: llm_chain_def try_except_Inr)
  qed
qed

lemma document_search_outcome:
  "(\<exists>docs. fst (document_search env c m rk vk) = Inr docs) \<or>
   (\<exists>e. fst (document_search_try env c m rk vk) = Inl e \<and>
        fst (document_search env c m rk vk) = Inl (APIError (''Failed to search documents. '' @ str e) 400))"
proof (cases "document_search_try env c m rk vk")
  case (Pair r t)
  then show ?thesis
    by (cases r)
      (simp_all add: document_search_def try_except_Inl try_except_Inr document_search_handler_def
        raise_def APIError_default_def)
qed

lemma rag_chain_never_raises:
  "\<exists>r. fst (rag_chain_with_multiturn env q h rk vk) = Inr r"
  "\<exists>r. fst (rag_chain env q h rk vk) = Inr r"
proof -
  show m: "\<exists>r. fst (rag_chain_with_multiturn env q h rk vk) = Inr r"
  proof (cases "rag_chain_with_multiturn_try env q h rk vk")
    case (Pair r t)
    then show ?thesis
      by (cases r)
        (simp_all add: rag_chain_with_multiturn_def try_except_Inl try_except_Inr
          rag_chain_with_multiturn_handler_shape)
  qed
  show "\<exists>r. fst (rag_chain env q h rk vk) = Inr r"
  proof (cases "ENABLE_MULTITURN env")
    case True
    then show ?thesis using m by (simp add: rag_chain_def)
  next
    case False
    show ?thesis
    proof (cases "rag_chain_try env q h rk vk")
      case (Pair r t)
      then show ?thesis
        using False
        by (cases r)
          (simp_all add: rag_chain_def try_except_Inl try_except_Inr rag_chain_handler_shape)
    qed
  qed
qed

lemma multiturn_value_shape:
  assumes "fst (rag_chain_with_multiturn env q h rk vk) = Inr r" "r \<noteq> NoneValue"
  shows "(\<exists>sr ctx. r = Tuple (Inr [Json sr]) ctx) \<or> (\<exists>sr. r = Bare (Inr [Json sr]))
         \<or> r = Bare (Inr [Text []])"
proof (cases "rag_chain_with_multiturn_try env q h rk vk")
  case (Pair x t)
  show ?thesis
  proof (cases x)
    case (Inl e)
    with Pair assms show ?thesis
      by (auto simp add: rag_chain_with_multiturn_def try_except_Inl
          rag_chain_with_multiturn_handler_shape split: if_splits)
  next
    case (Inr r')
    with Pair assms have "r' = r"
      by (simp add: rag_chain_with_multiturn_def try_except_Inr)
    with Pair Inr show ?thesis
      using rag_chain_with_multiturn_try_shape [of env q h rk vk r t] by blast
  qed
qed

lemma rag_chain_value_shape:
  assumes "fst (rag_chain env q h rk vk) = Inr r" "r \<noteq> NoneValue"
  shows "(\<exists>sr ctx. r = Tuple (Inr [Json sr]) ctx) \<or> (\<exists>sr. r = Bare (Inr [Json sr]))
         \<or> r = Bare (Inr [Text []])"
proof (cases "ENABLE_MULTITURN env")
  case True
  with assms show ?thesis
    using multiturn_value_shape [of env q h rk vk r] by (simp add: rag_chain_def)
next
  case False
  show ?thesis
  proof (cases "rag_chain_try env q h rk vk")
    case (Pair x t)
    show ?thesis
    proof (cases x)
      case (Inl e)
      with Pair assms False show ?thesis
        by (auto simp add: rag_chain_def try_except_Inl rag_chain_handler_shape split: if_splits)
    next
      case (Inr r')
      with Pair assms False have "r' = r"
        by (simp add: rag_chain_def try_except_Inr)
      with Pair Inr show ?thesis
        using rag_chain_try_shape [of env q h rk vk r t] by blast
    qed
  qed
qed


section \<open>The budget of the reflection controller\<close>

declare spec_check_context_relevance.simps [simp del]

lemma increments_Nil: "increments [] = 0"
  by (simp add: increments_def)

lemma increments_Cons: "increments (ev # t) = (if ev = Increment then 1 else 0) + increments t"
  by (simp add: increments_def)


declare groundedness_loop.simps [simp del]

lemma groundedness_loop_budget:
  assumes "current_count c \<le> max_loops c"
  shows "current_count c + increments (snd (groundedness_loop regenerate judge candidate docs c))
           \<le> max_loops c"
  using assms
proof (induction regenerate judge candidate docs c rule: groundedness_loop.induct)
  case (1 regenerate judge candidate docs c)
  show ?case
  proof (cases "judge (current_count c) candidate docs")
    case True
    then show ?thesis
      using "1.prems"
      by (subst groundedness_loop.simps) (simp add: increments_Cons increments_Nil)
  next
    case False
    show ?thesis
    proof (cases "current_count c < max_loops c")
      case True
      let ?c = "c\<lparr>current_count := current_count c + 1\<rparr>"
      have ih: "current_count ?c + increments (snd (groundedness_loop regenerate judge
              (regenerate (current_count c) candidate docs) docs ?c)) \<le> max_loops ?c"
        using "1.IH" [OF False True] True by simp
      have eq: "groundedness_loop regenerate judge candidate docs c =
          (fst (groundedness_loop regenerate judge (regenerate (current_count c) candidate docs) docs ?c),
           [JudgeGroundedness, Increment] @
           snd (groundedness_loop regenerate judge (regenerate (current_count c) candidate docs) docs ?c))"
        using False True
        by (subst groundedness_loop.simps) (simp add: case_prod_beta)
      show ?thesis
        using ih by (simp add: eq increments_Cons)
    next
      case F2: False
      with False show ?thesis
        using "1.prems"
        by (subst groundedness_loop.simps) (simp add: increments_Cons increments_Nil)
    qed
  qed
qed

lemma relevance_raises:
  "retrieve k q = Inl e \<Longrightarrow>
   spec_check_context_relevance retrieve judge q k ranker flag c = (Inl e, [RetrieverInvoke k q])"
  by (subst spec_check_context_relevance.simps) simp

lemma relevance_accepts:
  "retrieve k q = Inr docs \<Longrightarrow> judge (current_count c) q docs \<Longrightarrow>
   spec_check_context_relevance retrieve judge q k ranker flag c =
     (Inr (docs, True, c), [RetrieverInvoke k q, JudgeRelevance])"
  by (subst spec_check_context_relevance.simps) simp

lemma relevance_exhausted:
  "retrieve k q = Inr docs \<Longrightarrow> \<not> judge (current_count c) q docs \<Longrightarrow>
   \<not> current_count c < max_loops c \<Longrightarrow>
   spec_check_context_relevance retrieve judge q k ranker flag c =
     (Inr (docs, False, c), [RetrieverInvoke k q, JudgeRelevance])"
  by (subst spec_check_context_relevance.simps) simp

lemma relevance_retries:
  "retrieve k q = Inr docs \<Longrightarrow> \<not> judge (current_count c) q docs \<Longrightarrow>
   current_count c < max_loops c \<Longrightarrow>
   spec_check_context_relevance retrieve judge q k ranker flag c =
     (fst (spec_check_context_relevance retrieve judge q k ranker flag
             (c\<lparr>current_count := current_count c + 1\<rparr>)),
      [RetrieverInvoke k q, JudgeRelevance, Increment] @
      snd (spec_check_context_relevance retrieve judge q k ranker flag
             (c\<lparr>current_count := current_count c + 1\<rparr>)))"
  by (subst spec_check_context_relevance.simps) (simp add: case_prod_beta)

lemma spec_check_context_relevance_budget:
  assumes "current_count c \<le> max_loops c"
  shows "current_count c + increments (snd (spec_check_context_relevance retrieve judge q k ranker flag c))
           \<le> max_loops c
         \<and> JudgeGroundedness \<notin> set (snd (spec_check_context_relevance retrieve judge q k ranker flag c))
         \<and> (\<forall>docs rel c'.
              fst (spec_check_context_relevance retrieve judge q k ranker flag c) = Inr (docs, rel, c') \<longrightarrow>
              max_loops c' = max_loops c \<and>
              current_count c' = current_count c +
                increments (snd (spec_check_context_relevance retrieve judge q k ranker flag c)))"
  using assms
proof (induction retrieve judge q k ranker flag c rule: spec_check_context_relevance.induct)
  case (1 retrieve judge q k ranker flag c)
  show ?case
  proof (cases "retrieve k q")
    case (Inl e)
    show ?thesis
      using "1.prems" Inl
      by (simp add: relevance_raises [of retrieve k q e judge ranker flag c]
          increments_Cons increments_Nil)
  next
    case (Inr docs)
    show ?thesis
    proof (cases "judge (current_count c) q docs")
      case True
      show ?thesis
        using "1.prems" Inr True
        by (simp add: relevance_accepts [of retrieve k q docs judge c ranker flag]
            increments_Cons increments_Nil)
    next
      case False
      show ?thesis
      proof (cases "current_count c < max_loops c")
        case True
        let ?c = "c\<lparr>current_count := current_count c + 1\<rparr>"
        let ?run = "spec_check_context_relevance retrieve judge q k ranker flag ?c"
        have "current_count ?c \<le> max_loops ?c"
          using True by simp
        note ih = "1.IH" [OF Inr False True this, simplified]
        from ih
        have ih1: "current_count c + 1 + increments (snd ?run) \<le> max_loops c"
          and ih2: "JudgeGroundedness \<notin> set (snd ?run)"
          and ih3: "\<forall>docs rel c'. fst ?run = Inr (docs, rel, c') \<longrightarrow>
                max_loops c' = max_loops c \<and>
                current_count c' = current_count c + 1 + increments (snd ?run)"
          by blast+
        note eq = relevance_retries [of retrieve k q docs judge c ranker flag, OF Inr False True]
        show ?thesis
        proof (intro conjI allI impI)
          show "current_count c + increments (snd (spec_check_context_relevance retrieve judge q k ranker flag c))
                  \<le> max_loops c"
            using ih1 by (simp add: eq increments_Cons)
          show "JudgeGroundedness \<notin> set (snd (spec_check_context_relevance retrieve judge q k ranker flag c))"
            using ih2 by (simp add: eq)
        next
          fix docs' rel c'
          assume "fst (spec_check_context_relevance retrieve judge q k ranker flag c) = Inr (docs', rel, c')"
          then have "fst ?run = Inr (docs', rel, c')"
            by (simp add: eq)
          with ih3 have "max_loops c' = max_loops c \<and>
                current_count c' = current_count c + 1 + increments (snd ?run)"
            by blast
          then show "max_loops c' = max_loops c"
            and "current_count c' = current_count c +
                increments (snd (spec_check_context_relevance retrieve judge q k ranker flag c))"
            by (simp_all add: eq increments_Cons)
        qed
      next
        case F2: False
        show ?thesis
          using "1.prems" Inr False F2
          by (simp add: relevance_exhausted [of retrieve k q docs judge c ranker flag]
              increments_Cons increments_Nil)
      qed
    qed
  qed
qed


lemma increments_append: "increments (t1 @ t2) = increments t1 + increments t2"
  by (simp add: increments_def)

lemma increments_nonneg: "0 \<le> increments t"
  by (simp add: increments_def)

lemma get_context_budget:
  assumes "ENABLE_REFLECTION env" "MAX_REFLECTION_LOOP env = Inr M" "0 \<le> M"
    "check_context_relevance env = spec_check_context_relevance (retriever_invoke env) jr"
  shows "increments (snd (get_context env q k rk ranker)) \<le> M
         \<and> JudgeGroundedness \<notin> set (snd (get_context env q k rk ranker))
         \<and> (\<forall>ctx rc. fst (get_context env q k rk ranker) = Inr (ctx, rc) \<longrightarrow>
               (\<exists>c. rc = Some c \<and> max_loops c = M \<and>
                    current_count c = increments (snd (get_context env q k rk ranker))))"
proof -
  let ?c0 = "ReflectionCounter_init M"
  let ?run = "spec_check_context_relevance (retriever_invoke env) jr q k ranker None ?c0"
  have c0: "current_count ?c0 \<le> max_loops ?c0" "current_count ?c0 = 0" "max_loops ?c0 = M"
    using assms(3) by (simp_all add: ReflectionCounter_init_def)
  note b = spec_check_context_relevance_budget [OF c0(1), of "retriever_invoke env" jr q k ranker None]
  from b c0 have b1: "increments (snd ?run) \<le> M" by simp
  from b have b2: "JudgeGroundedness \<notin> set (snd ?run)" by blast
  from b have b3: "\<And>docs rel c'. fst ?run = Inr (docs, rel, c') \<Longrightarrow>
      max_loops c' = M \<and> current_count c' = increments (snd ?run)"
    unfolding c0(2,3) by simp
  have g: "get_context env q k rk ranker =
      bindM ?run (\<lambda>(context_to_show, is_relevant, reflection_counter).
        returnM (context_to_show, Some reflection_counter))"
    using assms by (simp add: get_context_def bindM_lift_Inr)
  obtain r t where rt: "?run = (r, t)" by (cases ?run)
  show ?thesis
  proof (cases r)
    case (Inl e)
    with rt b1 b2 show ?thesis
      by (simp add: g bindM_Inl_pair)
  next
    case (Inr x)
    obtain docs rel c' where x: "x = (docs, rel, c')" by (cases x)
    from b3 [of docs rel c'] rt Inr x
    have "max_loops c' = M \<and> current_count c' = increments t" by simp
    with rt Inr x b1 b2 show ?thesis
      by (simp add: g bindM_Inr_pair returnM_def)
  qed
qed


lemma increments_bindM:
  "increments (snd (bindM m f)) =
     increments (snd m) + (case fst m of Inl e \<Rightarrow> 0 | Inr x \<Rightarrow> increments (snd (f x)))"
  by (cases m) (simp add: bindM_def increments_append increments_Nil split: sum.splits prod.splits)

lemma increments_lift: "increments (snd (lift r)) = 0"
  by (simp add: lift_def increments_Nil)

lemma increments_returnM: "increments (snd (returnM x)) = 0"
  by (simp add: returnM_def increments_Nil)

lemma increments_raise: "increments (snd (raise e)) = 0"
  by (simp add: raise_def increments_Nil)

lemma increments_call: "ev \<noteq> Increment \<Longrightarrow> increments (snd (call ev r)) = 0"
  by (simp add: call_def increments_Cons increments_Nil)

lemmas increments_simps =
  increments_bindM increments_lift increments_returnM increments_raise increments_call

lemma groundedness_gate_Some:
  "groundedness_gate env rc = Some c \<longleftrightarrow> ENABLE_REFLECTION env \<and> rc = Some c \<and> 0 < remaining c"
  by (auto simp: groundedness_gate_def split: option.splits)

lemma answer_budget:
  assumes "check_response_groundedness env = spec_check_response_groundedness render regenerate jg"
    "current_count c \<le> max_loops c"
  shows "current_count c + increments (snd (multiturn_answer env message q ctx (Some c))) \<le> max_loops c"
    and "current_count c + increments (snd (rag_chain_answer env message q ctx (Some c))) \<le> max_loops c"
proof -
  have loop: "current_count c +
      increments (snd (check_response_groundedness env initial_response docs c)) \<le> max_loops c"
    for initial_response docs
    using groundedness_loop_budget [OF assms(2)]
    by (simp add: assms(1) spec_check_response_groundedness_def)
  show "current_count c + increments (snd (multiturn_answer env message q ctx (Some c))) \<le> max_loops c"
    using assms(2) loop
    by (auto simp add: multiturn_answer_def increments_simps groundedness_gate_Some
        case_prod_beta split: sum.splits option.splits)
  show "current_count c + increments (snd (rag_chain_answer env message q ctx (Some c))) \<le> max_loops c"
    using assms(2) loop
    by (auto simp add: rag_chain_answer_def increments_simps groundedness_gate_Some
        case_prod_beta split: sum.splits option.splits)
qed


lemma increments_try_except:
  "increments (snd (try_except m handler)) =
     increments (snd m) + (case fst m of Inl e \<Rightarrow> increments (snd (handler e)) | Inr x \<Rightarrow> 0)"
  by (cases m) (simp add: try_except_def increments_append increments_Nil split: sum.splits prod.splits)

lemma context_then_answer:
  assumes "ENABLE_REFLECTION env" "MAX_REFLECTION_LOOP env = Inr M" "0 \<le> M"
    "check_context_relevance env = spec_check_context_relevance (retriever_invoke env) jr"
    "check_response_groundedness env = spec_check_response_groundedness render regenerate jg"
  shows "increments (snd (get_context env rq k rk ranker)) \<le> M"
    and "fst (get_context env rq k rk ranker) = Inr (ctx, rc) \<Longrightarrow>
         increments (snd (get_context env rq k rk ranker)) +
         increments (snd (multiturn_answer env message q ctx rc)) \<le> M"
    and "fst (get_context env rq k rk ranker) = Inr (ctx, rc) \<Longrightarrow>
         increments (snd (get_context env rq k rk ranker)) +
         increments (snd (rag_chain_answer env message q ctx rc)) \<le> M"
proof -
  note g = get_context_budget [OF assms(1-4), of rq k rk ranker]
  from g show g1: "increments (snd (get_context env rq k rk ranker)) \<le> M" by blast
  from g have g3: "\<And>ctx rc. fst (get_context env rq k rk ranker) = Inr (ctx, rc) \<Longrightarrow>
      \<exists>c. rc = Some c \<and> max_loops c = M \<and>
          current_count c = increments (snd (get_context env rq k rk ranker))"
    by blast
  {
    assume "fst (get_context env rq k rk ranker) = Inr (ctx, rc)"
    with g3 [of ctx rc] obtain c where c: "rc = Some c" "max_loops c = M"
        "current_count c = increments (snd (get_context env rq k rk ranker))"
      by blast
    from c g1 have le: "current_count c \<le> max_loops c" by simp
    from answer_budget(1) [OF assms(5) le, of message q ctx] c
    have "increments (snd (get_context env rq k rk ranker)) +
         increments (snd (multiturn_answer env message q ctx rc)) \<le> M" by simp
    moreover from answer_budget(2) [OF assms(5) le, of message q ctx] c
    have "increments (snd (get_context env rq k rk ranker)) +
         increments (snd (rag_chain_answer env message q ctx rc)) \<le> M" by simp
    ultimately have "increments (snd (get_context env rq k rk ranker)) +
         increments (snd (multiturn_answer env message q ctx rc)) \<le> M
       \<and> increments (snd (get_context env rq k rk ranker)) +
         increments (snd (rag_chain_answer env message q ctx rc)) \<le> M" by simp
  }
  then show "fst (get_context env rq k rk ranker) = Inr (ctx, rc) \<Longrightarrow>
         increments (snd (get_context env rq k rk ranker)) +
         increments (snd (multiturn_answer env message q ctx rc)) \<le> M"
    and "fst (get_context env rq k rk ranker) = Inr (ctx, rc) \<Longrightarrow>
         increments (snd (get_context env rq k rk ranker)) +
         increments (snd (rag_chain_answer env message q ctx rc)) \<le> M"
    by blast+
qed

lemma multiturn_retriever_query_increments:
  "increments (snd (multiturn_retriever_query env q h)) = 0"
  by (simp add: multiturn_retriever_query_def increments_simps Let_def split: sum.splits)

lemma rag_chain_with_multiturn_try_budget:
  assumes "ENABLE_REFLECTION env" "MAX_REFLECTION_LOOP env = Inr M" "0 \<le> M"
    "check_context_relevance env = spec_check_context_relevance (retriever_invoke env) jr"
    "check_response_groundedness env = spec_check_response_groundedness render regenerate jg"
  shows "increments (snd (rag_chain_with_multiturn_try env q h rk vk)) \<le> M"
  using assms(3)
  by (auto simp add: rag_chain_with_multiturn_try_def increments_simps Let_def
      multiturn_retriever_query_increments context_then_answer [OF assms]
      split: sum.splits option.splits)

lemma rag_chain_try_budget:
  assumes "ENABLE_REFLECTION env" "MAX_REFLECTION_LOOP env = Inr M" "0 \<le> M"
    "check_context_relevance env = spec_check_context_relevance (retriever_invoke env) jr"
    "check_response_groundedness env = spec_check_response_groundedness render regenerate jg"
  shows "increments (snd (rag_chain_try env q h rk vk)) \<le> M"
  using assms(3)
  by (auto simp add: rag_chain_try_def increments_simps Let_def
      context_then_answer [OF assms]
      split: sum.splits option.splits)

lemma rag_chain_budget:
  assumes "ENABLE_REFLECTION env" "MAX_REFLECTION_LOOP env = Inr M" "0 \<le> M"
    "check_context_relevance env = spec_check_context_relevance (retriever_invoke env) jr"
    "check_response_groundedness env = spec_check_response_groundedness render regenerate jg"
  shows "increments (snd (rag_chain_with_multiturn env q h rk vk)) \<le> M"
    and "increments (snd (rag_chain env q h rk vk)) \<le> M"
proof -
  show m: "increments (snd (rag_chain_with_multiturn env q h rk vk)) \<le> M"
    using rag_chain_with_multiturn_try_budget [OF assms, of q h rk vk]
    by (simp add: rag_chain_with_multiturn_def increments_try_except
        rag_chain_with_multiturn_handler_shape increments_Nil split: sum.splits)
  show "increments (snd (rag_chain env q h rk vk)) \<le> M"
    using m rag_chain_try_budget [OF assms, of q h rk vk]
    by (simp add: rag_chain_def increments_try_except rag_chain_handler_shape increments_Nil
        split: sum.splits)
qed


lemma answer_without_groundedness:
  assumes "groundedness_gate env rc = None"
  shows "snd (multiturn_answer env message q ctx rc) = []"
    and "fst (multiturn_answer env message q ctx rc) = Inr r \<Longrightarrow>
         \<exists>docs. mapM (format_document_with_source env) ctx = Inr docs \<and>
                r = Tuple (stream_structured_multiturn_response env message q docs) ctx"
  using assms
  by (auto simp add: multiturn_answer_def io_defs split: sum.splits prod.splits)

lemma answer_groundedness_entered:
  assumes "JudgeGroundedness \<in> set (snd (multiturn_answer env message q ctx rc))"
  shows "\<exists>c. rc = Some c \<and> 0 < remaining c"
proof (cases "groundedness_gate env rc")
  case None
  then show ?thesis
    using assms answer_without_groundedness(1) [of env rc message q ctx] by simp
next
  case (Some c)
  then show ?thesis
    by (simp add: groundedness_gate_Some)
qed

section \<open>Failure classification\<close>

text \<open>
  Claim C3, as the code has it. In \<^verbatim>\<open>ingest_docs\<close> every failure of the \<^verbatim>\<open>try\<close> block is
  raised again as one APIError with exactly one status: 504 for a ConnectTimeout, whatever
  its text; otherwise 403 when the text holds both \<^verbatim>\<open>[403] Forbidden\<close> and
  \<^verbatim>\<open>Invalid UAM response\<close>; otherwise 404 when it holds \<^verbatim>\<open>[404] Not Found\<close>; otherwise 500.
  The global text splitter is left as the block left it.
\<close>

theorem ingest_docs_status:
  assumes "ingest_try env ts = (Inl e, ts')"
  shows "\<exists>message. ingest_docs env ts =
           (Inl (APIError message
                  (if is_ConnectTimeout e then 504
                   else if str_in ''[403] Forbidden'' (str e) \<and> str_in ''Invalid UAM response'' (str e)
                     then 403
                   else if str_in ''[404] Not Found'' (str e) then 404
                   else 500)), ts')"
  using assms
  by (simp add: ingest_docs_def ingest_handler_def forbidden_marker_def not_found_marker_def)

theorem ingest_docs_status_witness:
  "ingest_try (sample_env\<lparr>add_documents := (\<lambda>docs. Inl (Exception ''[404] Not Found''))\<rparr>) None
     = (Inl (Exception ''[404] Not Found''), Some ())
   \<and> (\<exists>message.
         ingest_docs (sample_env\<lparr>add_documents := (\<lambda>docs. Inl (Exception ''[404] Not Found''))\<rparr>) None
           = (Inl (APIError message 404), Some ()))"
proof -
  have h: "ingest_try (sample_env\<lparr>add_documents := (\<lambda>docs. Inl (Exception ''[404] Not Found''))\<rparr>) None
     = (Inl (Exception ''[404] Not Found''), Some ())"
    by (simp add: ingest_try_def sample_env_def)
  show ?thesis
    using h ingest_docs_status [OF h] by simp
qed

text \<open>
  Claim C3 as stated fails on the search path: a ConnectTimeout of the embedding service
  leaves \<^verbatim>\<open>document_search\<close> as an APIError with the status 400, not 504.
\<close>

theorem search_timeout_status_400:
  "document_search (sample_env\<lparr>get_embedding_model := Inl (ConnectTimeout ''timed out'')\<rparr>) ''q'' [] 4 40
     = (Inl (APIError ''Failed to search documents. timed out'' 400), [])"
  by (simp add: chain_defs io_defs sample_env_def)

section \<open>An unavailable vector store\<close>

text \<open>
  Claim C6 at the input where it fails: the vector store is \<^verbatim>\<open>None\<close>. The \<^verbatim>\<open>try\<close> block of
  \<^verbatim>\<open>rag_chain\<close> raises the APIError with the text of the uninitialised store and the
  status 500; \<^verbatim>\<open>document_search\<close> raises an APIError with an empty explanation and the
  status 400.
\<close>

theorem search_without_store:
  "document_search (sample_env\<lparr>get_vectorstore := Inr None\<rparr>) ''q'' [] 4 40
     = (Inl (APIError ''Failed to search documents. '' 400), [])
   \<and> rag_chain_try (sample_env\<lparr>get_vectorstore := Inr None\<rparr>) ''q'' [] 4 40
     = (Inl (APIError
          ''Vector store not initialized properly. Please check if the vector DB is up and running.''
          500), [])"
  by (simp add: chain_defs io_defs sample_env_def)

section \<open>The description of an error answer\<close>

text \<open>
  Claim C4 at the input where it fails: the language model endpoint times out. The answer
  of \<^verbatim>\<open>rag_chain\<close> has the default description of the class, and the text of the error is
  nowhere in it; the answer of \<^verbatim>\<open>llm_chain\<close> on the same failure describes the timeout.
\<close>

theorem rag_chain_timeout_description:
  "rag_chain (sample_env\<lparr>get_llm := Inl (ConnectTimeout ''timed out'')\<rparr>) ''q'' [] 4 40
     = (Inr (Bare (Inr [Json default_response])), [])
   \<and> llm_chain (sample_env\<lparr>get_llm := Inl (ConnectTimeout ''timed out'')\<rparr>) (Some ''q'') []
     = (Inr (Inr [Json (default_response\<lparr>description :=
          ''Connection timed out while making a request to the NIM endpoint. Verify if the NIM server is available. Unable to generate vGPU configuration.''\<rparr>)]), [])"
  by (simp add: chain_defs io_defs sample_env_def)

section \<open>Query formulation\<close>

text \<open>
  Claim C7. The block that forms the retrieval query, in \<^verbatim>\<open>rag_chain_with_multiturn\<close> and in
  \<^verbatim>\<open>document_search\<close>: on an empty history the retrieval query is the query itself, and no
  collaborator is called; with query rewriting disabled and a history that is not empty it
  is the contents of the user turns of that history, in their order, followed by the query,
  joined by \<^verbatim>\<open>". "\<close>: the user turns \<^verbatim>\<open>a\<close>, \<^verbatim>\<open>b\<close> and the query \<^verbatim>\<open>c\<close> give \<^verbatim>\<open>a. b. c\<close>. The
  history is the list the block receives; \<^verbatim>\<open>rag_chain_with_multiturn\<close> has cut it before.
\<close>

theorem retrieval_query_formulation:
  "multiturn_retriever_query env q [] = (Inr (Some q), [])
   \<and> search_retriever_query env q [] = (Inr (Some q), [])
   \<and> (\<not> enable_query_rewriting env \<longrightarrow> h \<noteq> [] \<longrightarrow>
        multiturn_retriever_query env q h = (Inr (Some (join ''. '' (user_queries h @ [q]))), [])
        \<and> search_retriever_query env q h = (Inr (Some (join ''. '' (user_queries h @ [q]))), []))
   \<and> (user_queries h = [''a'', ''b''] \<longrightarrow> join ''. '' (user_queries h @ [''c'']) = ''a. b. c'')"
  by (simp add: multiturn_retriever_query_def search_retriever_query_def returnM_def)

theorem retrieval_query_formulation_witness:
  "\<not> enable_query_rewriting sample_env \<and> sample_history \<noteq> [] \<and> user_queries sample_history = [''a'', ''b'']
   \<and> multiturn_retriever_query sample_env ''c'' sample_history = (Inr (Some ''a. b. c''), [])
   \<and> search_retriever_query sample_env ''c'' sample_history = (Inr (Some ''a. b. c''), [])"
proof -
  have h: "\<not> enable_query_rewriting sample_env" "sample_history \<noteq> []"
      "user_queries sample_history = [''a'', ''b'']"
    by (simp_all add: sample_env_def sample_history_def user_queries_def)
  show ?thesis
    using h retrieval_query_formulation [of sample_env "''c''" sample_history] by simp
qed


section \<open>History truncation\<close>

text \<open>
  Claim C8, as the code has it. For a turn count \<open>K\<close> of at least one, the cut
  \<^verbatim>\<open>chat_history[K * 2 * -1:]\<close> keeps the last \<open>2 * K\<close> messages. \<^verbatim>\<open>rag_chain_with_multiturn\<close>
  makes it before anything reads the history, on both paths: its outcome on a history is its
  outcome on the last \<open>2 * K\<close> messages of it. \<^verbatim>\<open>document_search\<close> makes the cut on the path
  of query rewriting only; on the path of concatenation it joins the user turns of the
  whole history.
\<close>

theorem history_truncation:
  "(0 < K \<longrightarrow> truncate_history K h = drop (length h - nat (2 * K)) h)
   \<and> (CONVERSATION_HISTORY env = Inr K \<longrightarrow> 0 < K \<longrightarrow>
        rag_chain_with_multiturn env q h rk vk =
        rag_chain_with_multiturn env q (drop (length h - nat (2 * K)) h) rk vk)
   \<and> (CONVERSATION_HISTORY env = Inr K \<longrightarrow> 0 < K \<longrightarrow> enable_query_rewriting env \<longrightarrow>
        document_search env q h rk vk =
        document_search env q (drop (length h - nat (2 * K)) h) rk vk)
   \<and> (\<not> enable_query_rewriting env \<longrightarrow>
        search_retriever_query env q h = (Inr (Some (join ''. '' (user_queries h @ [q]))), []))"
proof (intro conjI impI)
  assume "0 < K"
  then show "truncate_history K h = drop (length h - nat (2 * K)) h"
    by (rule truncate_history_last)
next
  assume "CONVERSATION_HISTORY env = Inr K" "0 < K"
  then show "rag_chain_with_multiturn env q h rk vk =
        rag_chain_with_multiturn env q (drop (length h - nat (2 * K)) h) rk vk"
    using multiturn_truncated [of env K q h rk vk] by (simp add: truncate_history_last)
next
  assume "CONVERSATION_HISTORY env = Inr K" "0 < K" "enable_query_rewriting env"
  then show "document_search env q h rk vk =
        document_search env q (drop (length h - nat (2 * K)) h) rk vk"
    using search_truncated [of env K q h rk vk] by (simp add: truncate_history_last)
next
  assume "\<not> enable_query_rewriting env"
  then show "search_retriever_query env q h = (Inr (Some (join ''. '' (user_queries h @ [q]))), [])"
    by (simp add: search_retriever_query_def returnM_def user_queries_def)
qed

theorem history_truncation_witness:
  "CONVERSATION_HISTORY (sample_env\<lparr>CONVERSATION_HISTORY := Inr 1, enable_query_rewriting := True\<rparr>) = Inr 1
   \<and> (0::int) < 1
   \<and> enable_query_rewriting (sample_env\<lparr>CONVERSATION_HISTORY := Inr 1, enable_query_rewriting := True\<rparr>)
   \<and> \<not> enable_query_rewriting sample_env
   \<and> truncate_history 1 sample_history =
       [\<lparr>role = ''user'', content = ''b''\<rparr>, \<lparr>role = ''assistant'', content = ''y''\<rparr>]
   \<and> rag_chain_with_multiturn (sample_env\<lparr>CONVERSATION_HISTORY := Inr 1, enable_query_rewriting := True\<rparr>)
        ''c'' sample_history 4 40 =
      rag_chain_with_multiturn (sample_env\<lparr>CONVERSATION_HISTORY := Inr 1, enable_query_rewriting := True\<rparr>)
        ''c'' [\<lparr>role = ''user'', content = ''b''\<rparr>, \<lparr>role = ''assistant'', content = ''y''\<rparr>] 4 40
   \<and> document_search (sample_env\<lparr>CONVERSATION_HISTORY := Inr 1, enable_query_rewriting := True\<rparr>)
        ''c'' sample_history 4 40 =
      document_search (sample_env\<lparr>CONVERSATION_HISTORY := Inr 1, enable_query_rewriting := True\<rparr>)
        ''c'' [\<lparr>role = ''user'', content = ''b''\<rparr>, \<lparr>role = ''assistant'', content = ''y''\<rparr>] 4 40
   \<and> search_retriever_query sample_env ''c'' sample_history = (Inr (Some ''a. b. c''), [])"
proof -
  have h: "CONVERSATION_HISTORY (sample_env\<lparr>CONVERSATION_HISTORY := Inr 1, enable_query_rewriting := True\<rparr>) = Inr 1"
      "(0::int) < 1"
      "enable_query_rewriting (sample_env\<lparr>CONVERSATION_HISTORY := Inr 1, enable_query_rewriting := True\<rparr>)"
      "\<not> enable_query_rewriting sample_env"
    by (simp_all add: sample_env_def)
  have d: "drop (length sample_history - nat (2 * 1)) sample_history =
       [\<lparr>role = ''user'', content = ''b''\<rparr>, \<lparr>role = ''assistant'', content = ''y''\<rparr>]"
      "user_queries sample_history = [''a'', ''b'']"
    by (simp_all add: sample_history_def user_queries_def)
  show ?thesis
    using h d
      history_truncation [of 1 sample_history
        "sample_env\<lparr>CONVERSATION_HISTORY := Inr 1, enable_query_rewriting := True\<rparr>" "''c''" 4 40]
      history_truncation [of 1 sample_history sample_env "''c''" 4 40]
    by simp
qed

text \<open>
  Claim C8 as stated fails on the concatenation path of \<^verbatim>\<open>document_search\<close>: with \<open>K = 1\<close>
  and a history of four messages, the retrieval query still holds the user turn \<^verbatim>\<open>a\<close>,
  which is not among the last two messages; on the history cut beforehand it would not.
\<close>

theorem search_concatenation_untruncated:
  "snd (document_search (sample_env\<lparr>CONVERSATION_HISTORY := Inr 1\<rparr>) ''c'' sample_history 4 40)
     = [RetrieverInvoke 4 ''a. b. c'']
   \<and> truncate_history 1 sample_history =
       [\<lparr>role = ''user'', content = ''b''\<rparr>, \<lparr>role = ''assistant'', content = ''y''\<rparr>]
   \<and> snd (document_search (sample_env\<lparr>CONVERSATION_HISTORY := Inr 1\<rparr>) ''c''
            (truncate_history 1 sample_history) 4 40)
     = [RetrieverInvoke 4 ''b. c'']"
  by (simp add: chain_defs io_defs sample_env_def sample_history_def)

section \<open>An empty rewritten query\<close>

text \<open>
  Claim C5, as the code has it. When the query rewriter is reached and returns the empty
  string, or a string that is two quote characters once every double quote is replaced by
  a single one, \<^verbatim>\<open>document_search\<close> returns the empty list and
  \<^verbatim>\<open>rag_chain_with_multiturn\<close> returns a bare iterator over the one chunk \<^verbatim>\<open>""\<close>, with no
  context list. In both the only collaborator called is the rewriter: neither the
  retriever nor the language model chain is invoked.
\<close>

theorem empty_rewrite_short_circuit:
  assumes "get_embedding_model env = Inr ()" "get_vectorstore env = Inr (Some ())"
    "get_ranking_model env = Inr ranker" "as_retriever env = Inr ()"
    "CONVERSATION_HISTORY env = Inr K" "enable_query_rewriting env"
    "truncate_history K h \<noteq> []"
    "query_rewriter env q (history_turns (truncate_history K h)) = Inr rq"
    "rq = [] \<or> replace_quotes rq = [CHR 0x27, CHR 0x27]"
  shows "document_search env q h rk vk =
           (Inr [], [RewriterInvoke q (history_turns (truncate_history K h))])
         \<and> (get_llm env = Inr () \<longrightarrow>
              rag_chain_with_multiturn env q h rk vk =
                (Inr (Bare (Inr [Text []])), [RewriterInvoke q (history_turns (truncate_history K h))]))"
proof -
  have ne: "h \<noteq> []"
    using assms(7) by (auto simp: truncate_history_def slice_from_def Let_def split: if_splits)
  have er: "empty_rewrite rq"
    using assms(9) by (auto simp: empty_rewrite_def)
  have s: "search_retriever_query env q h =
             (Inr None, [RewriterInvoke q (history_turns (truncate_history K h))])"
    using assms ne er
    by (simp add: search_retriever_query_def bindM_lift_Inr bindM_call_Inr returnM_def
        history_turns_def)
  have m: "multiturn_retriever_query env q (truncate_history K h) =
             (Inr None, [RewriterInvoke q (history_turns (truncate_history K h))])"
    using assms er
    by (simp add: multiturn_retriever_query_def multiturn_conversation_history_def
        snd_history_loop bindM_call_Inr returnM_def)
  have "document_search env q h rk vk =
           (Inr [], [RewriterInvoke q (history_turns (truncate_history K h))])"
    using assms s
    by (simp add: document_search_def document_search_try_def bindM_lift_Inr
        try_except_Inr bindM_Inr_pair returnM_def Let_def)
  moreover have "get_llm env = Inr () \<longrightarrow>
      rag_chain_with_multiturn env q h rk vk =
        (Inr (Bare (Inr [Text []])), [RewriterInvoke q (history_turns (truncate_history K h))])"
    using assms m
    by (simp add: rag_chain_with_multiturn_def rag_chain_with_multiturn_try_def bindM_lift_Inr
        try_except_Inr bindM_Inr_pair returnM_def Let_def)
  ultimately show ?thesis by simp
qed

theorem empty_rewrite_short_circuit_witness:
  "get_embedding_model sample_env_empty_rewrite = Inr ()
   \<and> get_vectorstore sample_env_empty_rewrite = Inr (Some ())
   \<and> get_ranking_model sample_env_empty_rewrite = Inr (Some ())
   \<and> as_retriever sample_env_empty_rewrite = Inr ()
   \<and> CONVERSATION_HISTORY sample_env_empty_rewrite = Inr 15
   \<and> enable_query_rewriting sample_env_empty_rewrite
   \<and> truncate_history 15 sample_history \<noteq> []
   \<and> query_rewriter sample_env_empty_rewrite ''c'' (history_turns (truncate_history 15 sample_history))
       = Inr []
   \<and> get_llm sample_env_empty_rewrite = Inr ()
   \<and> document_search sample_env_empty_rewrite ''c'' sample_history 4 40 =
       (Inr [], [RewriterInvoke ''c'' (history_turns (truncate_history 15 sample_history))])
   \<and> rag_chain_with_multiturn sample_env_empty_rewrite ''c'' sample_history 4 40 =
       (Inr (Bare (Inr [Text []])),
        [RewriterInvoke ''c'' (history_turns (truncate_history 15 sample_history))])"
proof -
  have h: "get_embedding_model sample_env_empty_rewrite = Inr ()"
    "get_vectorstore sample_env_empty_rewrite = Inr (Some ())"
    "get_ranking_model sample_env_empty_rewrite = Inr (Some ())"
    "as_retriever sample_env_empty_rewrite = Inr ()"
    "CONVERSATION_HISTORY sample_env_empty_rewrite = Inr 15"
    "enable_query_rewriting sample_env_empty_rewrite"
    "truncate_history 15 sample_history \<noteq> []"
    "query_rewriter sample_env_empty_rewrite ''c'' (history_turns (truncate_history 15 sample_history))
       = Inr []"
    "[] = [] \<or> replace_quotes [] = [CHR 0x27, CHR 0x27]"
    by (simp_all add: sample_env_empty_rewrite_def sample_env_def sample_history_def
        truncate_history_def slice_from_def)
  have l: "get_llm sample_env_empty_rewrite = Inr ()"
    by (simp add: sample_env_empty_rewrite_def sample_env_def)
  show ?thesis
    using h(1-8) l empty_rewrite_short_circuit [OF h, of 4 40] by blast
qed

text \<open>
  Claim C5 as stated fails on the generation path: the chunk that \<^verbatim>\<open>rag_chain\<close> returns for an
  empty rewritten query is the empty string, not a serialised StructuredResponse, and it
  comes without a context list.
\<close>

theorem empty_rewrite_returns_empty_chunk:
  "fst (rag_chain sample_env_empty_rewrite ''c'' sample_history 4 40) = Inr (Bare (Inr [Text []]))"
  by (simp add: chain_defs io_defs sample_env_empty_rewrite_def sample_env_def sample_history_def)

section \<open>The shape of what the generation path returns\<close>

text \<open>
  Claim C10, as the code has it. When the \<^verbatim>\<open>try\<close> block of \<^verbatim>\<open>rag_chain\<close> ends without an
  exception, the function returns what the block returns: a pair of an iterator over one
  chunk, a serialised StructuredResponse, and the context list that retrieval gave. The same
  holds for \<^verbatim>\<open>rag_chain_with_multiturn\<close>, except that its block may also end in the early
  return of a bare iterator over the empty string. When the block raises, and the exception
  is not a ConnectionError without \<^verbatim>\<open>HTTPConnectionPool\<close> in its text, the handlers
  return a bare iterator over one serialised StructuredResponse, with no context list.
\<close>

theorem return_shapes:
  "(\<not> ENABLE_MULTITURN env \<longrightarrow> rag_chain_try env q h rk vk = (Inr r, t) \<longrightarrow>
      rag_chain env q h rk vk = (Inr r, t) \<and>
      (\<exists>sr ctx rc k ranker t1.
         get_context env q k rk ranker = (Inr (ctx, rc), t1) \<and> r = Tuple (Inr [Json sr]) ctx))
   \<and> (rag_chain_with_multiturn_try env q h rk vk = (Inr r, t) \<longrightarrow>
      rag_chain_with_multiturn env q h rk vk = (Inr r, t) \<and>
      ((\<exists>sr ctx rc rq k ranker t1.
          get_context env rq k rk ranker = (Inr (ctx, rc), t1) \<and> r = Tuple (Inr [Json sr]) ctx)
       \<or> r = Bare (Inr [Text []])))
   \<and> (\<not> ENABLE_MULTITURN env \<longrightarrow> rag_chain_try env q h rk vk = (Inl e, t) \<longrightarrow> \<not> unanswered e \<longrightarrow>
      (\<exists>sr. rag_chain env q h rk vk = (Inr (Bare (Inr [Json sr])), t)))
   \<and> (rag_chain_with_multiturn_try env q h rk vk = (Inl e, t) \<longrightarrow> \<not> unanswered e \<longrightarrow>
      (\<exists>sr. rag_chain_with_multiturn env q h rk vk = (Inr (Bare (Inr [Json sr])), t)))"
proof (intro conjI impI)
  assume a: "\<not> ENABLE_MULTITURN env" "rag_chain_try env q h rk vk = (Inr r, t)"
  then show "rag_chain env q h rk vk = (Inr r, t)"
    by (simp add: rag_chain_def try_except_Inr)
  from a(2) show "\<exists>sr ctx rc k ranker t1.
         get_context env q k rk ranker = (Inr (ctx, rc), t1) \<and> r = Tuple (Inr [Json sr]) ctx"
    by (rule rag_chain_try_shape)
next
  assume a: "rag_chain_with_multiturn_try env q h rk vk = (Inr r, t)"
  then show "rag_chain_with_multiturn env q h rk vk = (Inr r, t)"
    by (simp add: rag_chain_with_multiturn_def try_except_Inr)
  from a show "(\<exists>sr ctx rc rq k ranker t1.
          get_context env rq k rk ranker = (Inr (ctx, rc), t1) \<and> r = Tuple (Inr [Json sr]) ctx)
       \<or> r = Bare (Inr [Text []])"
    by (rule rag_chain_with_multiturn_try_shape)
next
  assume "\<not> ENABLE_MULTITURN env" "rag_chain_try env q h rk vk = (Inl e, t)" "\<not> unanswered e"
  then show "\<exists>sr. rag_chain env q h rk vk = (Inr (Bare (Inr [Json sr])), t)"
    by (simp add: rag_chain_def try_except_Inl rag_chain_handler_shape)
next
  assume "rag_chain_with_multiturn_try env q h rk vk = (Inl e, t)" "\<not> unanswered e"
  then show "\<exists>sr. rag_chain_with_multiturn env q h rk vk = (Inr (Bare (Inr [Json sr])), t)"
    by (simp add: rag_chain_with_multiturn_def try_except_Inl rag_chain_with_multiturn_handler_shape)
qed


theorem return_shapes_witness:
  "\<not> ENABLE_MULTITURN sample_env
   \<and> rag_chain_try sample_env ''q'' [] 4 40 =
       (Inr (Tuple (Inr [Json sample_answer]) [Document ''vGPU profiles'' ''guide.pdf'']),
        [RetrieverInvoke 4 ''q''])
   \<and> rag_chain sample_env ''q'' [] 4 40 =
       (Inr (Tuple (Inr [Json sample_answer]) [Document ''vGPU profiles'' ''guide.pdf'']),
        [RetrieverInvoke 4 ''q''])
   \<and> rag_chain_with_multiturn_try sample_env ''q'' [] 4 40 =
       (Inr (Tuple (Inr [Json sample_answer]) [Document ''vGPU profiles'' ''guide.pdf'']),
        [RetrieverInvoke 4 ''q''])
   \<and> rag_chain_with_multiturn sample_env ''q'' [] 4 40 =
       (Inr (Tuple (Inr [Json sample_answer]) [Document ''vGPU profiles'' ''guide.pdf'']),
        [RetrieverInvoke 4 ''q''])
   \<and> \<not> ENABLE_MULTITURN (sample_env\<lparr>get_llm := Inl (ConnectTimeout ''timed out'')\<rparr>)
   \<and> rag_chain_try (sample_env\<lparr>get_llm := Inl (ConnectTimeout ''timed out'')\<rparr>) ''q'' [] 4 40 =
       (Inl (ConnectTimeout ''timed out''), [])
   \<and> rag_chain_with_multiturn_try (sample_env\<lparr>get_llm := Inl (ConnectTimeout ''timed out'')\<rparr>)
         ''q'' [] 4 40 =
       (Inl (ConnectTimeout ''timed out''), [])
   \<and> \<not> unanswered (ConnectTimeout ''timed out'')
   \<and> (\<exists>sr. rag_chain (sample_env\<lparr>get_llm := Inl (ConnectTimeout ''timed out'')\<rparr>) ''q'' [] 4 40 =
          (Inr (Bare (Inr [Json sr])), []))
   \<and> (\<exists>sr. rag_chain_with_multiturn (sample_env\<lparr>get_llm := Inl (ConnectTimeout ''timed out'')\<rparr>)
             ''q'' [] 4 40 =
          (Inr (Bare (Inr [Json sr])), []))"
proof -
  have s: "\<not> ENABLE_MULTITURN sample_env"
    "rag_chain_try sample_env ''q'' [] 4 40 =
       (Inr (Tuple (Inr [Json sample_answer]) [Document ''vGPU profiles'' ''guide.pdf'']),
        [RetrieverInvoke 4 ''q''])"
    "rag_chain_with_multiturn_try sample_env ''q'' [] 4 40 =
       (Inr (Tuple (Inr [Json sample_answer]) [Document ''vGPU profiles'' ''guide.pdf'']),
        [RetrieverInvoke 4 ''q''])"
    by (simp_all add: chain_defs io_defs sample_env_def)
  have f: "\<not> ENABLE_MULTITURN (sample_env\<lparr>get_llm := Inl (ConnectTimeout ''timed out'')\<rparr>)"
    "rag_chain_try (sample_env\<lparr>get_llm := Inl (ConnectTimeout ''timed out'')\<rparr>) ''q'' [] 4 40 =
       (Inl (ConnectTimeout ''timed out''), [])"
    "rag_chain_with_multiturn_try (sample_env\<lparr>get_llm := Inl (ConnectTimeout ''timed out'')\<rparr>)
         ''q'' [] 4 40 =
       (Inl (ConnectTimeout ''timed out''), [])"
    "\<not> unanswered (ConnectTimeout ''timed out'')"
    by (simp_all add: chain_defs io_defs sample_env_def unanswered_def)
  note t1 = return_shapes [of sample_env "''q''" "[]" 4 40
      "Tuple (Inr [Json sample_answer]) [Document ''vGPU profiles'' ''guide.pdf'']"
      "[RetrieverInvoke 4 ''q'']" "ConnectTimeout ''timed out''"]
  note t2 = return_shapes [of "sample_env\<lparr>get_llm := Inl (ConnectTimeout ''timed out'')\<rparr>" "''q''" "[]"
      4 40 NoneValue "[]" "ConnectTimeout ''timed out''"]
  from t1 s have a: "rag_chain sample_env ''q'' [] 4 40 =
       (Inr (Tuple (Inr [Json sample_answer]) [Document ''vGPU profiles'' ''guide.pdf'']),
        [RetrieverInvoke 4 ''q''])"
    "rag_chain_with_multiturn sample_env ''q'' [] 4 40 =
       (Inr (Tuple (Inr [Json sample_answer]) [Document ''vGPU profiles'' ''guide.pdf'']),
        [RetrieverInvoke 4 ''q''])"
    by blast+
  from t2 f have b:
    "\<exists>sr. rag_chain (sample_env\<lparr>get_llm := Inl (ConnectTimeout ''timed out'')\<rparr>) ''q'' [] 4 40 =
          (Inr (Bare (Inr [Json sr])), [])"
    "\<exists>sr. rag_chain_with_multiturn (sample_env\<lparr>get_llm := Inl (ConnectTimeout ''timed out'')\<rparr>)
             ''q'' [] 4 40 =
          (Inr (Bare (Inr [Json sr])), [])"
    by blast+
  show ?thesis
    using s f a b by blast
qed

text \<open>
  Claim C10 as stated fails on a path that raises nothing: on an empty rewritten query the
  \<^verbatim>\<open>try\<close> block of \<^verbatim>\<open>rag_chain_with_multiturn\<close> returns a bare iterator, not a pair.
\<close>

theorem multiturn_bare_without_exception:
  "rag_chain_with_multiturn_try sample_env_empty_rewrite ''c'' sample_history 4 40 =
     (Inr (Bare (Inr [Text []])),
      [RewriterInvoke ''c''
        [(''user'', ''a''), (''assistant'', ''x''), (''user'', ''b''), (''assistant'', ''y'')]])"
  by (simp add: chain_defs io_defs sample_env_empty_rewrite_def sample_env_def sample_history_def)

section \<open>What every call path gives the caller\<close>

text \<open>
  Claim C1, as the code has it. \<^verbatim>\<open>llm_chain\<close> never raises and always returns an iterator
  over one chunk, a serialised StructuredResponse. \<^verbatim>\<open>document_search\<close> returns a list or
  raises an APIError that wraps the failure. \<^verbatim>\<open>rag_chain\<close> and \<^verbatim>\<open>rag_chain_with_multiturn\<close>
  never raise; a value they return, when it is not \<^verbatim>\<open>None\<close>, is a pair of an iterator over
  one serialised StructuredResponse and a context list, or a bare iterator over one
  serialised StructuredResponse, or a bare iterator over the empty string.
\<close>

theorem pipeline_responses:
  "(\<exists>sr. llm_chain env query h = (Inr (Inr [Json sr]), []))
   \<and> ((\<exists>docs. fst (document_search env c m rk vk) = Inr docs) \<or>
       (\<exists>message code. fst (document_search env c m rk vk) = Inl (APIError message code)))
   \<and> (\<exists>r. fst (rag_chain env q h rk vk) = Inr r)
   \<and> (\<exists>r. fst (rag_chain_with_multiturn env q h rk vk) = Inr r)
   \<and> (fst (rag_chain env q h rk vk) = Inr r \<longrightarrow> r \<noteq> NoneValue \<longrightarrow>
        (\<exists>sr ctx. r = Tuple (Inr [Json sr]) ctx) \<or> (\<exists>sr. r = Bare (Inr [Json sr]))
        \<or> r = Bare (Inr [Text []]))
   \<and> (fst (rag_chain_with_multiturn env q h rk vk) = Inr r' \<longrightarrow> r' \<noteq> NoneValue \<longrightarrow>
        (\<exists>sr ctx. r' = Tuple (Inr [Json sr]) ctx) \<or> (\<exists>sr. r' = Bare (Inr [Json sr]))
        \<or> r' = Bare (Inr [Text []]))"
proof (intro conjI impI)
  show "\<exists>sr. llm_chain env query h = (Inr (Inr [Json sr]), [])"
    by (rule llm_chain_total)
  show "(\<exists>docs. fst (document_search env c m rk vk) = Inr docs) \<or>
       (\<exists>message code. fst (document_search env c m rk vk) = Inl (APIError message code))"
    using document_search_outcome [of env c m rk vk] by blast
  show "\<exists>r. fst (rag_chain env q h rk vk) = Inr r"
    by (rule rag_chain_never_raises)
  show "\<exists>r. fst (rag_chain_with_multiturn env q h rk vk) = Inr r"
    by (rule rag_chain_never_raises)
next
  assume "fst (rag_chain env q h rk vk) = Inr r" "r \<noteq> NoneValue"
  then show "(\<exists>sr ctx. r = Tuple (Inr [Json sr]) ctx) \<or> (\<exists>sr. r = Bare (Inr [Json sr]))
        \<or> r = Bare (Inr [Text []])"
    by (rule rag_chain_value_shape)
next
  assume "fst (rag_chain_with_multiturn env q h rk vk) = Inr r'" "r' \<noteq> NoneValue"
  then show "(\<exists>sr ctx. r' = Tuple (Inr [Json sr]) ctx) \<or> (\<exists>sr. r' = Bare (Inr [Json sr]))
        \<or> r' = Bare (Inr [Text []])"
    by (rule multiturn_value_shape)
qed

theorem pipeline_responses_witness:
  "fst (rag_chain sample_env ''q'' [] 4 40)
     = Inr (Tuple (Inr [Json sample_answer]) [Document ''vGPU profiles'' ''guide.pdf''])
   \<and> Tuple (Inr [Json sample_answer]) [Document ''vGPU profiles'' ''guide.pdf''] \<noteq> NoneValue
   \<and> fst (rag_chain_with_multiturn sample_env_empty_rewrite ''c'' sample_history 4 40)
     = Inr (Bare (Inr [Text []]))
   \<and> Bare (Inr [Text []]) \<noteq> NoneValue
   \<and> (\<exists>sr. llm_chain sample_env (Some ''q'') [] = (Inr (Inr [Json sr]), []))
   \<and> ((\<exists>docs. fst (document_search sample_env ''q'' [] 4 40) = Inr docs) \<or>
       (\<exists>message code. fst (document_search sample_env ''q'' [] 4 40) = Inl (APIError message code)))"
proof -
  have h1: "fst (rag_chain sample_env ''q'' [] 4 40)
     = Inr (Tuple (Inr [Json sample_answer]) [Document ''vGPU profiles'' ''guide.pdf''])"
    by (simp add: chain_defs io_defs sample_env_def)
  have h2: "fst (rag_chain_with_multiturn sample_env_empty_rewrite ''c'' sample_history 4 40)
     = Inr (Bare (Inr [Text []]))"
    by (simp add: chain_defs io_defs sample_env_def sample_env_empty_rewrite_def sample_history_def)
  note t1 = pipeline_responses [of sample_env "Some ''q''" "[]" "''q''" "[]" 4 40 "''q''"
        "Tuple (Inr [Json sample_answer]) [Document ''vGPU profiles'' ''guide.pdf'']"
        "NoneValue"]
  note t2 = pipeline_responses [of sample_env_empty_rewrite "Some ''q''" sample_history "''q''" "[]" 4 40
        "''c''" "NoneValue" "Bare (Inr [Text []])"]
  from t1 have a: "\<exists>sr. llm_chain sample_env (Some ''q'') [] = (Inr (Inr [Json sr]), [])"
    "(\<exists>docs. fst (document_search sample_env ''q'' [] 4 40) = Inr docs) \<or>
     (\<exists>message code. fst (document_search sample_env ''q'' [] 4 40) = Inl (APIError message code))"
    by blast+
  from t2 h2 have "Bare (Inr [Text []]) \<noteq> NoneValue" by simp
  then show ?thesis
    using h1 h2 a by simp
qed

text \<open>
  Claim C1 as stated fails on the search path: a failure of the retriever leaves
  \<^verbatim>\<open>document_search\<close> as a raised APIError, not as a list.
\<close>

theorem search_failure_escapes:
  "document_search (sample_env\<lparr>retriever_invoke := (\<lambda>k q. Inl (Exception ''connection reset''))\<rparr>)
      ''q'' [] 4 40
     = (Inl (APIError ''Failed to search documents. connection reset'' 400), [RetrieverInvoke 4 ''q''])"
  by (simp add: chain_defs io_defs sample_env_def)

section \<open>The message sequence of the prompt\<close>

text \<open>
  Claim C9, as the code has it. The system message comes first: the template, or the
  reasoning directive in its place when the model is of the Nemotron family, followed by
  the contents of the system turns of the history. The primer, present for that family
  only, is a user message holding the template. \<^verbatim>\<open>llm_chain\<close> puts the primer before the
  other turns of the history, and ends with the question when the query is not empty;
  \<^verbatim>\<open>rag_chain\<close> puts no turn of the history into the sequence; \<^verbatim>\<open>rag_chain_with_multiturn\<close>
  puts the turns of the history before the primer. The formatted documents are no message
  of the sequence: they go to the chain as its context, beside the question, and without
  reflection the answer is what the chain returns on them.
\<close>

theorem message_sequences:
  "llm_chain_message env query h =
      [(''system'', system_instructions env (chat_template env) h)]
      @ primer_message env (chat_template env)
      @ history_turns h
      @ (if query \<noteq> None \<and> query \<noteq> Some [] then [(''user'', ''{question}'')] else [])
   \<and> rag_chain_message env h =
      [(''system'', system_instructions env (rag_template env) h)]
      @ primer_message env (rag_template env)
      @ [(''user'', ''{question}'')]
   \<and> multiturn_message env h =
      [(''system'', system_instructions env (rag_template env) h)]
      @ history_turns h
      @ primer_message env (rag_template env)
      @ [(''user'', ''{question}'')]
   \<and> (groundedness_gate env rc = None \<longrightarrow>
        mapM (format_document_with_source env) ctx = Inr docs \<longrightarrow>
        with_structured_output env = Inr () \<longrightarrow>
        chain_invoke env message (Some q) (Some docs) = Inr sr \<longrightarrow>
          rag_chain_answer env message q ctx rc = (Inr (Tuple (Inr [Json sr]) ctx), [])
          \<and> multiturn_answer env message q ctx rc = (Inr (Tuple (Inr [Json sr]) ctx), []))"
proof (intro conjI impI)
  show "llm_chain_message env query h =
      [(''system'', system_instructions env (chat_template env) h)]
      @ primer_message env (chat_template env)
      @ history_turns h
      @ (if query \<noteq> None \<and> query \<noteq> Some [] then [(''user'', ''{question}'')] else [])"
    by (simp add: llm_chain_message_def system_instructions_def primer_message_def
        case_prod_beta fst_history_loop snd_history_loop Let_def)
  show "rag_chain_message env h =
      [(''system'', system_instructions env (rag_template env) h)]
      @ primer_message env (rag_template env)
      @ [(''user'', ''{question}'')]"
    by (simp add: rag_chain_message_def system_instructions_def primer_message_def
        system_loop_eq Let_def)
  show "multiturn_message env h =
      [(''system'', system_instructions env (rag_template env) h)]
      @ history_turns h
      @ primer_message env (rag_template env)
      @ [(''user'', ''{question}'')]"
    by (simp add: multiturn_message_def system_instructions_def primer_message_def
        case_prod_beta fst_history_loop snd_history_loop Let_def)
next
  assume a: "groundedness_gate env rc = None"
    "mapM (format_document_with_source env) ctx = Inr docs"
    "with_structured_output env = Inr ()"
    "chain_invoke env message (Some q) (Some docs) = Inr sr"
  then show "rag_chain_answer env message q ctx rc = (Inr (Tuple (Inr [Json sr]) ctx), [])"
    by (simp add: rag_chain_answer_def bindM_lift_Inr returnM_def stream_structured_rag_response_def)
  from a show "multiturn_answer env message q ctx rc = (Inr (Tuple (Inr [Json sr]) ctx), [])"
    by (simp add: multiturn_answer_def bindM_lift_Inr returnM_def
        stream_structured_multiturn_response_def)
qed

theorem message_sequences_witness:
  "groundedness_gate sample_env None = None
   \<and> mapM (format_document_with_source sample_env) [Document ''vGPU profiles'' ''guide.pdf'']
       = Inr [''vGPU profiles'']
   \<and> with_structured_output sample_env = Inr ()
   \<and> chain_invoke sample_env (multiturn_message sample_env sample_history) (Some ''c'')
        (Some [''vGPU profiles'']) = Inr sample_answer
   \<and> multiturn_message sample_env sample_history =
        [(''system'', ''Answer from the context: {context}''), (''user'', ''a''), (''assistant'', ''x''),
         (''user'', ''b''), (''assistant'', ''y''), (''user'', ''{question}'')]
   \<and> multiturn_answer sample_env (multiturn_message sample_env sample_history) ''c''
        [Document ''vGPU profiles'' ''guide.pdf''] None
       = (Inr (Tuple (Inr [Json sample_answer]) [Document ''vGPU profiles'' ''guide.pdf'']), [])"
proof -
  have h: "groundedness_gate sample_env None = None"
    "mapM (format_document_with_source sample_env) [Document ''vGPU profiles'' ''guide.pdf'']
       = Inr [''vGPU profiles'']"
    "with_structured_output sample_env = Inr ()"
    "chain_invoke sample_env (multiturn_message sample_env sample_history) (Some ''c'')
        (Some [''vGPU profiles'']) = Inr sample_answer"
    by (simp_all add: groundedness_gate_def sample_env_def)
  have e: "system_instructions sample_env (rag_template sample_env) sample_history
             = ''Answer from the context: {context}''"
      "primer_message sample_env (rag_template sample_env) = []"
      "history_turns sample_history =
         [(''user'', ''a''), (''assistant'', ''x''), (''user'', ''b''), (''assistant'', ''y'')]"
    by (simp_all add: system_instructions_def primer_message_def history_turns_def nemotron_def
        sample_env_def sample_history_def)
  note t = message_sequences [of sample_env None sample_history None
        "[Document ''vGPU profiles'' ''guide.pdf'']" "[''vGPU profiles'']"
        "multiturn_message sample_env sample_history" "''c''" sample_answer]
  from t e have m: "multiturn_message sample_env sample_history =
        [(''system'', ''Answer from the context: {context}''), (''user'', ''a''), (''assistant'', ''x''),
         (''user'', ''b''), (''assistant'', ''y''), (''user'', ''{question}'')]"
    by simp
  from t h have a: "multiturn_answer sample_env (multiturn_message sample_env sample_history) ''c''
        [Document ''vGPU profiles'' ''guide.pdf''] None
       = (Inr (Tuple (Inr [Json sample_answer]) [Document ''vGPU profiles'' ''guide.pdf'']), [])"
    by blast
  show ?thesis
    using h m a by blast
qed

text \<open>
  Claim C9 as stated fails in \<^verbatim>\<open>rag_chain_with_multiturn\<close>: for a model of the Nemotron
  family and one earlier user turn, the primer comes after the turn of the history, where
  the sequence of the spec has it before.
\<close>

theorem multiturn_primer_after_history:
  "multiturn_message sample_env_nemotron [\<lparr>role = ''user'', content = ''earlier question''\<rparr>]
     = [(''system'', ''detailed thinking off''), (''user'', ''earlier question''),
        (''user'', ''Answer from the context: {context}''), (''user'', ''{question}'')]
   \<and> multiturn_message sample_env_nemotron [\<lparr>role = ''user'', content = ''earlier question''\<rparr>]
     \<noteq> spec_message_sequence ''detailed thinking off''
         [(''user'', ''Answer from the context: {context}'')] [(''user'', ''earlier question'')] []
         (''user'', ''{question}'')"
  by (simp add: chain_defs sample_env_nemotron_def sample_env_def spec_message_sequence_def)

section \<open>The reflection budget\<close>

text \<open>
  Claim C2, with the reflection controller of the spec in place of the missing module, for
  a request with reflection enabled and a budget \<open>M\<close> that is not negative. The counter is
  incremented at most \<open>M\<close> times in a whole run of \<^verbatim>\<open>rag_chain_with_multiturn\<close>, and of
  \<^verbatim>\<open>rag_chain\<close>, whether the run returns or fails. After retrieval the counter holds the
  number of increments made so far. A groundedness judgment occurs in the rest of the run
  only when the counter has budget remaining. When retrieval has made all \<open>M\<close> increments,
  the rest of the run calls neither the chain nor the judge, and what it returns, if
  anything, is the context with the stream of the plain answer of the chain.
\<close>

theorem reflection_budget:
  assumes "ENABLE_REFLECTION env" "MAX_REFLECTION_LOOP env = Inr M" "0 \<le> M"
    "check_context_relevance env = spec_check_context_relevance (retriever_invoke env) jr"
    "check_response_groundedness env = spec_check_response_groundedness render regenerate jg"
  shows "increments (snd (rag_chain_with_multiturn env q h rk vk)) \<le> M
       \<and> increments (snd (rag_chain env q h rk vk)) \<le> M
       \<and> (\<forall>ctx rc. fst (get_context env rq k rk ranker) = Inr (ctx, rc) \<longrightarrow>
            (\<exists>c. rc = Some c \<and> max_loops c = M
               \<and> current_count c = increments (snd (get_context env rq k rk ranker))
               \<and> (JudgeGroundedness \<in> set (snd (multiturn_answer env message q ctx rc))
                    \<longrightarrow> 0 < remaining c)
               \<and> (increments (snd (get_context env rq k rk ranker)) = M \<longrightarrow>
                    snd (multiturn_answer env message q ctx rc) = []
                    \<and> (\<forall>r. fst (multiturn_answer env message q ctx rc) = Inr r \<longrightarrow>
                          (\<exists>docs. mapM (format_document_with_source env) ctx = Inr docs \<and>
                             r = Tuple (stream_structured_multiturn_response env message q docs) ctx)))))"
proof (intro conjI allI impI)
  show "increments (snd (rag_chain_with_multiturn env q h rk vk)) \<le> M"
    by (rule rag_chain_budget(1) [OF assms])
  show "increments (snd (rag_chain env q h rk vk)) \<le> M"
    by (rule rag_chain_budget(2) [OF assms])
next
  fix ctx rc
  assume a: "fst (get_context env rq k rk ranker) = Inr (ctx, rc)"
  note g = get_context_budget [OF assms(1-4), of rq k rk ranker]
  from g a obtain c where c: "rc = Some c" "max_loops c = M"
      "current_count c = increments (snd (get_context env rq k rk ranker))"
    by blast
  have e: "JudgeGroundedness \<in> set (snd (multiturn_answer env message q ctx rc)) \<longrightarrow> 0 < remaining c"
    using answer_groundedness_entered [of env message q ctx rc] c(1) by auto
  have z: "increments (snd (get_context env rq k rk ranker)) = M \<longrightarrow>
              snd (multiturn_answer env message q ctx rc) = []
              \<and> (\<forall>r. fst (multiturn_answer env message q ctx rc) = Inr r \<longrightarrow>
                    (\<exists>docs. mapM (format_document_with_source env) ctx = Inr docs \<and>
                       r = Tuple (stream_structured_multiturn_response env message q docs) ctx))"
  proof
    assume "increments (snd (get_context env rq k rk ranker)) = M"
    with c have "remaining c = 0" by (simp add: remaining_def)
    with c(1) have closed: "groundedness_gate env rc = None"
      by (simp add: groundedness_gate_def)
    show "snd (multiturn_answer env message q ctx rc) = []
              \<and> (\<forall>r. fst (multiturn_answer env message q ctx rc) = Inr r \<longrightarrow>
                    (\<exists>docs. mapM (format_document_with_source env) ctx = Inr docs \<and>
                       r = Tuple (stream_structured_multiturn_response env message q docs) ctx))"
      using answer_without_groundedness [OF closed, of message q ctx] by blast
  qed
  show "\<exists>c. rc = Some c \<and> max_loops c = M
               \<and> current_count c = increments (snd (get_context env rq k rk ranker))
               \<and> (JudgeGroundedness \<in> set (snd (multiturn_answer env message q ctx rc))
                    \<longrightarrow> 0 < remaining c)
               \<and> (increments (snd (get_context env rq k rk ranker)) = M \<longrightarrow>
                    snd (multiturn_answer env message q ctx rc) = []
                    \<and> (\<forall>r. fst (multiturn_answer env message q ctx rc) = Inr r \<longrightarrow>
                          (\<exists>docs. mapM (format_document_with_source env) ctx = Inr docs \<and>
                             r = Tuple (stream_structured_multiturn_response env message q docs) ctx)))"
    using c e z by blast
qed

theorem reflection_budget_witness:
  "ENABLE_REFLECTION sample_env_reflection
   \<and> MAX_REFLECTION_LOOP sample_env_reflection = Inr 3
   \<and> (0::int) \<le> 3
   \<and> check_context_relevance sample_env_reflection =
       spec_check_context_relevance (retriever_invoke sample_env_reflection) (\<lambda>n q docs. False)
   \<and> check_response_groundedness sample_env_reflection =
       spec_check_response_groundedness description (\<lambda>n candidate docs. candidate)
         (\<lambda>n candidate docs. False)
   \<and> get_context sample_env_reflection ''a. b. c'' 4 4 (Some ()) =
       (Inr ([Document ''vGPU profiles'' ''guide.pdf''], Some \<lparr>max_loops = 3, current_count = 3\<rparr>),
        [RetrieverInvoke 4 ''a. b. c'', JudgeRelevance, Increment,
         RetrieverInvoke 4 ''a. b. c'', JudgeRelevance, Increment,
         RetrieverInvoke 4 ''a. b. c'', JudgeRelevance, Increment,
         RetrieverInvoke 4 ''a. b. c'', JudgeRelevance])
   \<and> increments (snd (get_context sample_env_reflection ''a. b. c'' 4 4 (Some ()))) = 3
   \<and> increments (snd (rag_chain sample_env_reflection ''c'' sample_history 4 40)) \<le> 3
   \<and> snd (multiturn_answer sample_env_reflection (multiturn_message sample_env_reflection sample_history)
             ''c'' [Document ''vGPU profiles'' ''guide.pdf'']
             (Some \<lparr>max_loops = 3, current_count = 3\<rparr>)) = []"
proof -
  have h: "ENABLE_REFLECTION sample_env_reflection"
    "MAX_REFLECTION_LOOP sample_env_reflection = Inr 3"
    "(0::int) \<le> 3"
    "check_context_relevance sample_env_reflection =
       spec_check_context_relevance (retriever_invoke sample_env_reflection) (\<lambda>n q docs. False)"
    "check_response_groundedness sample_env_reflection =
       spec_check_response_groundedness description (\<lambda>n candidate docs. candidate)
         (\<lambda>n candidate docs. False)"
    by (simp_all add: sample_env_reflection_def with_spec_reflection_def sample_env_def)
  have g: "get_context sample_env_reflection ''a. b. c'' 4 4 (Some ()) =
       (Inr ([Document ''vGPU profiles'' ''guide.pdf''], Some \<lparr>max_loops = 3, current_count = 3\<rparr>),
        [RetrieverInvoke 4 ''a. b. c'', JudgeRelevance, Increment,
         RetrieverInvoke 4 ''a. b. c'', JudgeRelevance, Increment,
         RetrieverInvoke 4 ''a. b. c'', JudgeRelevance, Increment,
         RetrieverInvoke 4 ''a. b. c'', JudgeRelevance])"
    by (simp add: get_context_def sample_env_reflection_def with_spec_reflection_def sample_env_def
        io_defs ReflectionCounter_init_def spec_check_context_relevance.simps)
  have i: "increments (snd (get_context sample_env_reflection ''a. b. c'' 4 4 (Some ()))) = 3"
    by (simp add: g increments_def)
  note t = reflection_budget [OF h, of "''c''" sample_history 4 40 "''a. b. c''" 4 "Some ()"
      "multiturn_message sample_env_reflection sample_history"]
  from t have b: "increments (snd (rag_chain sample_env_reflection ''c'' sample_history 4 40)) \<le> 3"
    by blast
  from t have "\<exists>c. Some \<lparr>max_loops = 3, current_count = 3\<rparr> = Some c \<and>
       (increments (snd (get_context sample_env_reflection ''a. b. c'' 4 4 (Some ()))) = 3 \<longrightarrow>
        snd (multiturn_answer sample_env_reflection
               (multiturn_message sample_env_reflection sample_history) ''c''
               [Document ''vGPU profiles'' ''guide.pdf''] (Some \<lparr>max_loops = 3, current_count = 3\<rparr>)) = [])"
    using g by fastforce
  with i have z: "snd (multiturn_answer sample_env_reflection
               (multiturn_message sample_env_reflection sample_history) ''c''
               [Document ''vGPU profiles'' ''guide.pdf''] (Some \<lparr>max_loops = 3, current_count = 3\<rparr>)) = []"
    by blast
  show ?thesis
    using h g i b z by blast
qed

end
